theory Spec2Isabelle
  imports Main "HOL-Library.Sublist" "HOL-Library.AList"
begin

text \<open>
  A model of the tool-augmented conversation agent of \<open>project2-backend\<close>
  (\<open>agent.py\<close>, \<open>tools.py\<close>): the derivation of the tool declarations, the execution
  of one tool, the loop of rounds with the reasoning service, the extraction of a chart
  specification from the final answer, the construction of the agent, and the filtered
  paper query. The reasoning service, \<open>json.loads\<close>, \<open>json.dumps\<close>, the dispatch table
  and the data frame are parameters of the functions that use them. The definitions come
  first, the properties after them.
\<close>

section \<open>Python values\<close>

text \<open>
  The values that cross the program's interfaces as JSON: what \<open>json.loads\<close> returns,
  what a tool receives as arguments and returns as result. A \<open>dict\<close> is an association
  list in insertion order; its keys are strings. A float is kept as the text of its
  literal: the program never computes with one.
\<close>

datatype pyval =
    PNone
  | PBool bool
  | PInt int
  | PFloat string
  | PStr string
  | PList "pyval list"
  | PDict "(string \<times> pyval) list"

text \<open>
  Exceptions are values. Every constructor stands for an instance of a subclass of
  Python's \<open>Exception\<close> and carries \<open>str(e)\<close>; \<open>JSONDecodeError\<close> is kept apart
  because the extractor catches exactly that class.
\<close>

datatype exn =
    ValueError string
  | TypeError string
  | AttributeError string
  | KeyError string
  | JSONDecodeError string
  | OtherException string

fun exn_str :: "exn \<Rightarrow> string" where
  "exn_str (ValueError m) = m"
| "exn_str (TypeError m) = m"
| "exn_str (AttributeError m) = m"
| "exn_str (KeyError m) = m"
| "exn_str (JSONDecodeError m) = m"
| "exn_str (OtherException m) = m"

definition nl :: string where
  "nl = [CHR 0x0A]"

definition quoted :: "string \<Rightarrow> string" where
  "quoted s = CHR 0x27 # s @ [CHR 0x27]"

fun py_type_name :: "pyval \<Rightarrow> string" where
  "py_type_name PNone = ''NoneType''"
| "py_type_name (PBool b) = ''bool''"
| "py_type_name (PInt i) = ''int''"
| "py_type_name (PFloat f) = ''float''"
| "py_type_name (PStr s) = ''str''"
| "py_type_name (PList xs) = ''list''"
| "py_type_name (PDict kvs) = ''dict''"

text \<open>
  \<open>k in v\<close> for a string \<open>k\<close>: a key test on a dict, an element test on a list, a
  substring test on a string, and a \<open>TypeError\<close> on every other value.
\<close>

fun py_in :: "string \<Rightarrow> pyval \<Rightarrow> exn + bool" where
  "py_in k (PDict kvs) = Inr (k \<in> set (map fst kvs))"
| "py_in k (PList xs) = Inr (PStr k \<in> set xs)"
| "py_in k (PStr s) = Inr (sublist k s)"
| "py_in k v =
     Inl (TypeError (''argument of type '' @ quoted (py_type_name v) @ '' is not iterable''))"

text \<open>\<open>v.get(k, d)\<close>: only a dict has the method.\<close>

fun py_get :: "pyval \<Rightarrow> string \<Rightarrow> pyval \<Rightarrow> exn + pyval" where
  "py_get (PDict kvs) k d = Inr (case map_of kvs k of None \<Rightarrow> d | Some v \<Rightarrow> v)"
| "py_get v k d =
     Inl (AttributeError
       (quoted (py_type_name v) @ '' object has no attribute '' @ quoted ''get''))"

section \<open>Python strings\<close>

text \<open>
  A Python \<open>str\<close> is modelled as a \<open>string\<close>: the UTF-8 bytes of the text. All
  patterns the program searches for are ASCII, so searching and replacing on the bytes
  agrees with searching and replacing on the code points.

  \<open>s.replace(old, new)\<close> replaces every non-overlapping occurrence of \<open>old\<close>, scanning
  from the left. With an empty \<open>old\<close>, Python puts \<open>new\<close> before every character and at
  the end. The operator \<open>old in s\<close> on two strings is \<open>sublist old s\<close>.
\<close>

function str_replace :: "string \<Rightarrow> string \<Rightarrow> string \<Rightarrow> string" where
  "str_replace old new [] = (if old = [] then new else [])"
| "str_replace old new (c # cs) =
     (if old = [] then new @ c # str_replace old new cs
      else if prefix old (c # cs)
        then new @ str_replace old new (drop (length old) (c # cs))
      else c # str_replace old new cs)"
  by pat_completeness auto
termination
  by (relation "measure (\<lambda>(old, new, s). length s)") auto

text \<open>
  White space as \<open>str.isspace\<close>, \<open>str.strip\<close> and the regular expression class
  \<open>\s\<close> see it: the 29 code points for which \<open>str.isspace\<close> holds, each by its UTF-8
  bytes. They are the ASCII characters tab, line feed, vertical tab, form feed, carriage
  return, \<open>0x1C\<close> to \<open>0x1F\<close> and space, and \<open>U+0085\<close>, \<open>U+00A0\<close>, \<open>U+1680\<close>,
  \<open>U+2000\<close> to \<open>U+200A\<close>, \<open>U+2028\<close>, \<open>U+2029\<close>, \<open>U+202F\<close>, \<open>U+205F\<close> and
  \<open>U+3000\<close>. No encoding in the table is a prefix of another, and in well-formed UTF-8
  one of them at the end of a text is that character.
\<close>

definition white_space :: "string list" where
  "white_space =
     [[CHR 0x09], [CHR 0x0A], [CHR 0x0B], [CHR 0x0C], [CHR 0x0D], [CHR 0x1C],
      [CHR 0x1D], [CHR 0x1E], [CHR 0x1F], [CHR 0x20], [CHR 0xC2, CHR 0x85], [CHR 0xC2, CHR 0xA0],
      [CHR 0xE1, CHR 0x9A, CHR 0x80], [CHR 0xE2, CHR 0x80, CHR 0x80], [CHR 0xE2, CHR 0x80, CHR 0x81],
      [CHR 0xE2, CHR 0x80, CHR 0x82], [CHR 0xE2, CHR 0x80, CHR 0x83], [CHR 0xE2, CHR 0x80, CHR 0x84],
      [CHR 0xE2, CHR 0x80, CHR 0x85], [CHR 0xE2, CHR 0x80, CHR 0x86], [CHR 0xE2, CHR 0x80, CHR 0x87],
      [CHR 0xE2, CHR 0x80, CHR 0x88], [CHR 0xE2, CHR 0x80, CHR 0x89], [CHR 0xE2, CHR 0x80, CHR 0x8A],
      [CHR 0xE2, CHR 0x80, CHR 0xA8], [CHR 0xE2, CHR 0x80, CHR 0xA9], [CHR 0xE2, CHR 0x80, CHR 0xAF],
      [CHR 0xE2, CHR 0x81, CHR 0x9F], [CHR 0xE3, CHR 0x80, CHR 0x80]]"

text \<open>The text after one white-space character at the start, if there is one.\<close>

definition skip_space :: "string \<Rightarrow> string option" where
  "skip_space s =
     (case find (\<lambda>w. prefix w s) white_space of
        None \<Rightarrow> None
      | Some w \<Rightarrow> Some (drop (length w) s))"

text \<open>The text before one white-space character at the end, if there is one.\<close>

definition skip_space_end :: "string \<Rightarrow> string option" where
  "skip_space_end s =
     (case find (\<lambda>w. suffix w s) white_space of
        None \<Rightarrow> None
      | Some w \<Rightarrow> Some (take (length s - length w) s))"

lemma white_space_nonempty: "w \<in> set white_space \<Longrightarrow> 0 < length w"
  by (auto simp: white_space_def)

lemma skip_space_shorter:
  assumes "skip_space s = Some r"
  shows "length r < length s"
proof -
  from assms obtain w where f: "find (\<lambda>w. prefix w s) white_space = Some w"
    and r: "r = drop (length w) s"
    by (auto simp: skip_space_def split: option.splits)
  from f have w: "w \<in> set white_space" and p: "prefix w s"
    by (auto simp: find_Some_iff)
  from w have "0 < length w" by (rule white_space_nonempty)
  moreover from p have "length w \<le> length s" by (rule prefix_length_le)
  ultimately show ?thesis using r by (cases w) auto
qed

lemma skip_space_end_shorter:
  assumes "skip_space_end s = Some r"
  shows "length r < length s"
proof -
  from assms obtain w where f: "find (\<lambda>w. suffix w s) white_space = Some w"
    and r: "r = take (length s - length w) s"
    by (auto simp: skip_space_end_def split: option.splits)
  from f have w: "w \<in> set white_space" and p: "suffix w s"
    by (auto simp: find_Some_iff)
  from w have "0 < length w" by (rule white_space_nonempty)
  moreover from p have "length w \<le> length s" by (rule suffix_length_le)
  ultimately show ?thesis using r by (cases w) auto
qed

text \<open>\<open>s.lstrip()\<close>, \<open>s.rstrip()\<close> and \<open>s.strip()\<close>.\<close>

function str_lstrip :: "string \<Rightarrow> string" where
  "str_lstrip s = (case skip_space s of None \<Rightarrow> s | Some r \<Rightarrow> str_lstrip r)"
  by pat_completeness auto
termination str_lstrip
  by (relation "measure length") (auto dest: skip_space_shorter)

function str_rstrip :: "string \<Rightarrow> string" where
  "str_rstrip s = (case skip_space_end s of None \<Rightarrow> s | Some r \<Rightarrow> str_rstrip r)"
  by pat_completeness auto
termination str_rstrip
  by (relation "measure length") (auto dest: skip_space_end_shorter)

definition str_strip :: "string \<Rightarrow> string" where
  "str_strip s = str_rstrip (str_lstrip s)"

section \<open>Tool registry\<close>

text \<open>
  \<open>tools.py\<close>, \<open>TOOL_DESCRIPTIONS\<close>: a dict from tool name to a dict with the keys
  \<open>name\<close>, \<open>description\<close> and \<open>parameters\<close>; \<open>parameters\<close> is a dict from parameter
  name to a dict with the keys \<open>type\<close>, \<open>description\<close>, \<open>optional\<close> and \<open>default\<close>.
  A key that may be missing is an \<open>option\<close>: \<open>None\<close> is the missing key.
\<close>

record param_info =
  p_type :: "string option"
  p_description :: "string option"
  p_optional :: "bool option"
  p_default :: "pyval option"

record descriptor =
  d_name :: "string option"
  d_description :: "string option"
  d_parameters :: "(string \<times> param_info) list option"

text \<open>The tool declaration sent to the service (\<open>agent.py\<close>, lines 52 to 60).\<close>

record property =
  prop_type :: string
  prop_description :: string

record input_schema =
  schema_type :: string
  properties :: "(string \<times> property) list"
  required :: "string list"

record tool =
  tool_name :: string
  tool_description :: string
  tool_input_schema :: input_schema

text \<open>
  \<open>agent.py\<close>, line 64:
  \<^verbatim>\<open>param_info['type'].replace('int', 'integer').replace('str', 'string').replace('bool', 'boolean')\<close>
\<close>

definition normalize_type :: "string \<Rightarrow> string" where
  "normalize_type t =
     str_replace ''bool'' ''boolean''
       (str_replace ''str'' ''string''
         (str_replace ''int'' ''integer'' t))"

definition mentions_internal_type :: "string \<Rightarrow> bool" where
  "mentions_internal_type t =
     (sublist ''int'' t \<or> sublist ''str'' t \<or> sublist ''bool'' t)"

text \<open>
  The inner loop of \<open>_get_tools_for_api\<close> (lines 62 to 71), on the schema being built.
  \<open>param_info['type']\<close> raises \<open>KeyError\<close> when the key is missing;
  \<open>param_info.get('optional', False)\<close> and \<open>'default' not in param_info\<close> do not.
  Storing under a key that is already present replaces the value in place, as
  \<open>AList.update\<close> does.
\<close>

fun add_parameters :: "(string \<times> param_info) list \<Rightarrow> input_schema \<Rightarrow> exn + input_schema" where
  "add_parameters [] sch = Inr sch"
| "add_parameters ((param_name, param_info) # rest) sch =
     (case p_type param_info of
        None \<Rightarrow> Inl (KeyError (quoted ''type''))
      | Some ty \<Rightarrow>
          (let prop = \<lparr>prop_type = normalize_type ty,
                       prop_description =
                         (case p_description param_info of None \<Rightarrow> '''' | Some d \<Rightarrow> d)\<rparr>;
               sch1 = sch\<lparr>properties := AList.update param_name prop (properties sch)\<rparr>;
               sch2 =
                 (if \<not> (case p_optional param_info of None \<Rightarrow> False | Some b \<Rightarrow> b)
                  then (if p_default param_info = None
                        then sch1\<lparr>required := required sch1 @ [param_name]\<rparr>
                        else sch1)
                  else sch1)
           in add_parameters rest sch2))"

text \<open>One pass of the outer loop (lines 52 to 73): the declaration of one tool.\<close>

definition tool_for_api :: "string \<Rightarrow> descriptor \<Rightarrow> exn + tool" where
  "tool_for_api name info =
     (case d_description info of
        None \<Rightarrow> Inl (KeyError (quoted ''description''))
      | Some descr \<Rightarrow>
          (case add_parameters
                  (case d_parameters info of None \<Rightarrow> [] | Some ps \<Rightarrow> ps)
                  \<lparr>schema_type = ''object'', properties = [], required = []\<rparr> of
             Inl e \<Rightarrow> Inl e
           | Inr sch \<Rightarrow>
               Inr \<lparr>tool_name = name, tool_description = descr, tool_input_schema = sch\<rparr>))"

fun get_tools_loop :: "(string \<times> descriptor) list \<Rightarrow> tool list \<Rightarrow> exn + tool list" where
  "get_tools_loop [] tools = Inr tools"
| "get_tools_loop ((name, info) # rest) tools =
     (case tool_for_api name info of
        Inl e \<Rightarrow> Inl e
      | Inr t \<Rightarrow> get_tools_loop rest (tools @ [t]))"

definition get_tools_for_api :: "(string \<times> descriptor) list \<Rightarrow> exn + tool list" where
  "get_tools_for_api descriptions = get_tools_loop descriptions []"

text \<open>
  The table of \<open>tools.py\<close>, lines 161 to 205. The descriptions are Chinese text, given
  here by their UTF-8 bytes.
\<close>

definition TOOL_DESCRIPTIONS :: "(string \<times> descriptor) list" where
  "TOOL_DESCRIPTIONS =
    [(''query_papers_by_year'',
      \<lparr>d_name = Some ''query_papers_by_year'',
       d_description = Some
         ([CHR 0xE6, CHR 0x8C, CHR 0x89, CHR 0xE5, CHR 0xB9, CHR 0xB4, CHR 0xE4, CHR 0xBB,
           CHR 0xBD, CHR 0xE7, CHR 0xBB, CHR 0x9F, CHR 0xE8, CHR 0xAE, CHR 0xA1, CHR 0xE8,
           CHR 0xAE, CHR 0xBA, CHR 0xE6, CHR 0x96, CHR 0x87, CHR 0xE6, CHR 0x95, CHR 0xB0,
           CHR 0xE9, CHR 0x87, CHR 0x8F, CHR 0xEF, CHR 0xBC, CHR 0x8C, CHR 0xE8, CHR 0xBF,
           CHR 0x94, CHR 0xE5, CHR 0x9B, CHR 0x9E, CHR 0xE6, CHR 0xAF, CHR 0x8F, CHR 0xE5,
           CHR 0xB9, CHR 0xB4, CHR 0xE7, CHR 0x9A, CHR 0x84, CHR 0xE8, CHR 0xAE, CHR 0xBA,
           CHR 0xE6, CHR 0x96, CHR 0x87, CHR 0xE6, CHR 0x95, CHR 0xB0, CHR 0xE3, CHR 0x80,
           CHR 0x81, CHR 0xE5, CHR 0xBC, CHR 0x95, CHR 0xE7, CHR 0x94, CHR 0xA8, CHR 0xE6,
           CHR 0x80, CHR 0xBB, CHR 0xE6, CHR 0x95, CHR 0xB0, CHR 0xE5, CHR 0x92, CHR 0x8C,
           CHR 0xE4, CHR 0xB8, CHR 0x93, CHR 0xE5, CHR 0x88, CHR 0xA9, CHR 0xE6, CHR 0x80,
           CHR 0xBB, CHR 0xE6, CHR 0x95, CHR 0xB0]),
       d_parameters = Some
        [(''start_year'',
          \<lparr>p_type = Some ''int'',
           p_description = Some
              ([CHR 0xE8, CHR 0xB5, CHR 0xB7, CHR 0xE5, CHR 0xA7, CHR 0x8B, CHR 0xE5, CHR 0xB9,
                CHR 0xB4, CHR 0xE4, CHR 0xBB, CHR 0xBD]),
           p_optional = None,
           p_default = Some (PInt 2014)\<rparr>),
         (''end_year'',
          \<lparr>p_type = Some ''int'',
           p_description = Some
              ([CHR 0xE7, CHR 0xBB, CHR 0x93, CHR 0xE6, CHR 0x9D, CHR 0x9F, CHR 0xE5, CHR 0xB9,
                CHR 0xB4, CHR 0xE4, CHR 0xBB, CHR 0xBD]),
           p_optional = None,
           p_default = Some (PInt 2024)\<rparr>)]\<rparr>),
     (''query_top_authors'',
      \<lparr>d_name = Some ''query_top_authors'',
       d_description = Some
         ([CHR 0xE6, CHR 0x9F, CHR 0xA5, CHR 0xE8, CHR 0xAF, CHR 0xA2, CHR 0xE6, CHR 0x8E,
           CHR 0x92, CHR 0xE5, CHR 0x90, CHR 0x8D, CHR 0xE9, CHR 0x9D, CHR 0xA0, CHR 0xE5,
           CHR 0x89, CHR 0x8D, CHR 0xE7, CHR 0x9A, CHR 0x84, CHR 0xE4, CHR 0xBD, CHR 0x9C,
           CHR 0xE8, CHR 0x80, CHR 0x85, CHR 0xEF, CHR 0xBC, CHR 0x8C, CHR 0xE5, CHR 0x8F,
           CHR 0xAF, CHR 0xE6, CHR 0x8C, CHR 0x89, CHR 0xE8, CHR 0xAE, CHR 0xBA, CHR 0xE6,
           CHR 0x96, CHR 0x87, CHR 0xE6, CHR 0x95, CHR 0xB0, CHR 0xE3, CHR 0x80, CHR 0x81] @
          ''h-index'' @
          [CHR 0xE6, CHR 0x88, CHR 0x96, CHR 0xE7, CHR 0x94, CHR 0x9F, CHR 0xE4, CHR 0xBA,
           CHR 0xA7, CHR 0xE5, CHR 0x8A, CHR 0x9B, CHR 0xE6, CHR 0x8E, CHR 0x92, CHR 0xE5,
           CHR 0xBA, CHR 0x8F]),
       d_parameters = Some
        [(''top_n'',
          \<lparr>p_type = Some ''int'',
           p_description = Some
              ([CHR 0xE8, CHR 0xBF, CHR 0x94, CHR 0xE5, CHR 0x9B, CHR 0x9E, CHR 0xE6, CHR 0x95,
                CHR 0xB0, CHR 0xE9, CHR 0x87, CHR 0x8F]),
           p_optional = None,
           p_default = Some (PInt 10)\<rparr>),
         (''metric'',
          \<lparr>p_type = Some ''str'',
           p_description = Some
              ([CHR 0xE6, CHR 0x8E, CHR 0x92, CHR 0xE5, CHR 0xBA, CHR 0x8F, CHR 0xE6, CHR 0x8C,
                CHR 0x87, CHR 0xE6, CHR 0xA0, CHR 0x87] @
               '': paper_count, h_index, productivity''),
           p_optional = None,
           p_default = Some (PStr ''paper_count'')\<rparr>)]\<rparr>),
     (''query_citation_stats'',
      \<lparr>d_name = Some ''query_citation_stats'',
       d_description = Some
         ([CHR 0xE8, CHR 0x8E, CHR 0xB7, CHR 0xE5, CHR 0x8F, CHR 0x96, CHR 0xE5, CHR 0xBC,
           CHR 0x95, CHR 0xE7, CHR 0x94, CHR 0xA8, CHR 0xE7, CHR 0xBB, CHR 0x9F, CHR 0xE8,
           CHR 0xAE, CHR 0xA1, CHR 0xE4, CHR 0xBF, CHR 0xA1, CHR 0xE6, CHR 0x81, CHR 0xAF,
           CHR 0xEF, CHR 0xBC, CHR 0x8C, CHR 0xE5, CHR 0x8C, CHR 0x85, CHR 0xE6, CHR 0x8B,
           CHR 0xAC, CHR 0xE6, CHR 0x80, CHR 0xBB, CHR 0xE8, CHR 0xAE, CHR 0xBA, CHR 0xE6,
           CHR 0x96, CHR 0x87, CHR 0xE6, CHR 0x95, CHR 0xB0, CHR 0xE3, CHR 0x80, CHR 0x81,
           CHR 0xE5, CHR 0x86, CHR 0x85, CHR 0xE9, CHR 0x83, CHR 0xA8, CHR 0xE5, CHR 0xBC,
           CHR 0x95, CHR 0xE7, CHR 0x94, CHR 0xA8, CHR 0xE6, CHR 0x95, CHR 0xB0, CHR 0xE3,
           CHR 0x80, CHR 0x81, CHR 0xE5, CHR 0xB9, CHR 0xB3, CHR 0xE5, CHR 0x9D, CHR 0x87,
           CHR 0xE5, CHR 0xBC, CHR 0x95, CHR 0xE7, CHR 0x94, CHR 0xA8, CHR 0xE7, CHR 0xAD,
           CHR 0x89]),
       d_parameters = Some
        []\<rparr>),
     (''query_papers_with_filters'',
      \<lparr>d_name = Some ''query_papers_with_filters'',
       d_description = Some
         ([CHR 0xE6, CHR 0xA0, CHR 0xB9, CHR 0xE6, CHR 0x8D, CHR 0xAE, CHR 0xE6, CHR 0x9D,
           CHR 0xA1, CHR 0xE4, CHR 0xBB, CHR 0xB6, CHR 0xE7, CHR 0xAD, CHR 0x9B, CHR 0xE9,
           CHR 0x80, CHR 0x89, CHR 0xE8, CHR 0xAE, CHR 0xBA, CHR 0xE6, CHR 0x96, CHR 0x87,
           CHR 0xEF, CHR 0xBC, CHR 0x8C, CHR 0xE6, CHR 0x94, CHR 0xAF, CHR 0xE6, CHR 0x8C,
           CHR 0x81, CHR 0xE5, CHR 0xB9, CHR 0xB4, CHR 0xE4, CHR 0xBB, CHR 0xBD, CHR 0xE3,
           CHR 0x80, CHR 0x81, CHR 0xE6, CHR 0x9C, CHR 0x80, CHR 0xE4, CHR 0xBD, CHR 0x8E,
           CHR 0xE5, CHR 0xBC, CHR 0x95, CHR 0xE7, CHR 0x94, CHR 0xA8, CHR 0xE6, CHR 0x95,
           CHR 0xB0, CHR 0xE3, CHR 0x80, CHR 0x81, CHR 0xE6, CHR 0x98, CHR 0xAF, CHR 0xE5,
           CHR 0x90, CHR 0xA6, CHR 0xE6, CHR 0x9C, CHR 0x89, CHR 0xE4, CHR 0xB8, CHR 0x93,
           CHR 0xE5, CHR 0x88, CHR 0xA9]),
       d_parameters = Some
        [(''year'',
          \<lparr>p_type = Some ''int'',
           p_description = Some
              ([CHR 0xE5, CHR 0xB9, CHR 0xB4, CHR 0xE4, CHR 0xBB, CHR 0xBD, CHR 0xE8, CHR 0xBF,
                CHR 0x87, CHR 0xE6, CHR 0xBB, CHR 0xA4]),
           p_optional = Some True,
           p_default = None\<rparr>),
         (''min_citations'',
          \<lparr>p_type = Some ''int'',
           p_description = Some
              ([CHR 0xE6, CHR 0x9C, CHR 0x80, CHR 0xE4, CHR 0xBD, CHR 0x8E, CHR 0xE5, CHR 0xBC,
                CHR 0x95, CHR 0xE7, CHR 0x94, CHR 0xA8, CHR 0xE6, CHR 0x95, CHR 0xB0]),
           p_optional = Some True,
           p_default = None\<rparr>),
         (''has_patents'',
          \<lparr>p_type = Some ''bool'',
           p_description = Some
              ([CHR 0xE6, CHR 0x98, CHR 0xAF, CHR 0xE5, CHR 0x90, CHR 0xA6, CHR 0xE6, CHR 0x9C,
                CHR 0x89, CHR 0xE4, CHR 0xB8, CHR 0x93, CHR 0xE5, CHR 0x88, CHR 0xA9, CHR 0xE5,
                CHR 0xBC, CHR 0x95, CHR 0xE7, CHR 0x94, CHR 0xA8]),
           p_optional = Some True,
           p_default = None\<rparr>),
         (''limit'',
          \<lparr>p_type = Some ''int'',
           p_description = Some
              ([CHR 0xE8, CHR 0xBF, CHR 0x94, CHR 0xE5, CHR 0x9B, CHR 0x9E, CHR 0xE6, CHR 0x95,
                CHR 0xB0, CHR 0xE9, CHR 0x87, CHR 0x8F, CHR 0xE9, CHR 0x99, CHR 0x90, CHR 0xE5,
                CHR 0x88, CHR 0xB6]),
           p_optional = None,
           p_default = Some (PInt 20)\<rparr>)]\<rparr>),
     (''query_collaboration_stats'',
      \<lparr>d_name = Some ''query_collaboration_stats'',
       d_description = Some
         ([CHR 0xE8, CHR 0x8E, CHR 0xB7, CHR 0xE5, CHR 0x8F, CHR 0x96, CHR 0xE5, CHR 0x90,
           CHR 0x88, CHR 0xE4, CHR 0xBD, CHR 0x9C, CHR 0xE7, CHR 0xBB, CHR 0x9F, CHR 0xE8,
           CHR 0xAE, CHR 0xA1, CHR 0xEF, CHR 0xBC, CHR 0x8C, CHR 0xE5, CHR 0x8C, CHR 0x85,
           CHR 0xE6, CHR 0x8B, CHR 0xAC, CHR 0xE4, CHR 0xBD, CHR 0x9C, CHR 0xE8, CHR 0x80,
           CHR 0x85, CHR 0xE6, CHR 0x95, CHR 0xB0, CHR 0xE3, CHR 0x80, CHR 0x81, CHR 0xE5,
           CHR 0xB9, CHR 0xB3, CHR 0xE5, CHR 0x9D, CHR 0x87, CHR 0xE4, CHR 0xBD, CHR 0x9C,
           CHR 0xE8, CHR 0x80, CHR 0x85, CHR 0xE6, CHR 0x95, CHR 0xB0, CHR 0xE7, CHR 0xAD,
           CHR 0x89]),
       d_parameters = Some
        []\<rparr>),
     (''query_yearly_trend'',
      \<lparr>d_name = Some ''query_yearly_trend'',
       d_description = Some
         ([CHR 0xE6, CHR 0x9F, CHR 0xA5, CHR 0xE8, CHR 0xAF, CHR 0xA2, CHR 0xE5, CHR 0xB9,
           CHR 0xB4, CHR 0xE5, CHR 0xBA, CHR 0xA6, CHR 0xE8, CHR 0xB6, CHR 0x8B, CHR 0xE5,
           CHR 0x8A, CHR 0xBF, CHR 0xEF, CHR 0xBC, CHR 0x8C, CHR 0xE5, CHR 0x8F, CHR 0xAF,
           CHR 0xE9, CHR 0x80, CHR 0x89, CHR 0xE6, CHR 0x8B, CHR 0xA9, CHR 0xE8, CHR 0xAE,
           CHR 0xBA, CHR 0xE6, CHR 0x96, CHR 0x87, CHR 0xE6, CHR 0x95, CHR 0xB0, CHR 0xE3,
           CHR 0x80, CHR 0x81, CHR 0xE5, CHR 0xBC, CHR 0x95, CHR 0xE7, CHR 0x94, CHR 0xA8,
           CHR 0xE6, CHR 0x95, CHR 0xB0, CHR 0xE6, CHR 0x88, CHR 0x96, CHR 0xE4, CHR 0xB8,
           CHR 0x93, CHR 0xE5, CHR 0x88, CHR 0xA9, CHR 0xE6, CHR 0x95, CHR 0xB0]),
       d_parameters = Some
        [(''metric'',
          \<lparr>p_type = Some ''str'',
           p_description = Some
              ([CHR 0xE6, CHR 0x8C, CHR 0x87, CHR 0xE6, CHR 0xA0, CHR 0x87] @
               '': papers, citations, patents''),
           p_optional = None,
           p_default = Some (PStr ''papers'')\<rparr>)]\<rparr>)]"

text \<open>
  The rule of the specification, in its words: a parameter is left out of the required
  list when its entry marks it optional or supplies a default value.
\<close>

definition spec_omitted :: "param_info \<Rightarrow> bool" where
  "spec_omitted p = (p_optional p = Some True \<or> p_default p \<noteq> None)"

definition parameters_of :: "descriptor \<Rightarrow> (string \<times> param_info) list" where
  "parameters_of info = (case d_parameters info of None \<Rightarrow> [] | Some ps \<Rightarrow> ps)"

definition spec_required :: "descriptor \<Rightarrow> string list" where
  "spec_required info =
     map fst (filter (\<lambda>(n, p). \<not> spec_omitted p) (parameters_of info))"

definition well_formed_descriptor :: "descriptor \<Rightarrow> bool" where
  "well_formed_descriptor info =
     (d_description info \<noteq> None \<and>
      list_all (\<lambda>(n, p). p_type p \<noteq> None) (parameters_of info))"

text \<open>A descriptor with one parameter of each kind, for checking the rule on.\<close>

definition example_descriptor :: descriptor where
  "example_descriptor =
     \<lparr>d_name = Some ''lookup'',
      d_description = Some ''Look a paper up'',
      d_parameters = Some
        [(''paperid'', \<lparr>p_type = Some ''str'', p_description = Some ''paper'',
                        p_optional = None, p_default = None\<rparr>),
         (''year'', \<lparr>p_type = Some ''int'', p_description = None,
                     p_optional = Some True, p_default = None\<rparr>),
         (''limit'', \<lparr>p_type = Some ''int'', p_description = Some ''rows'',
                      p_optional = None, p_default = Some (PInt 20)\<rparr>),
         (''exact'', \<lparr>p_type = Some ''bool'', p_description = Some ''exact match'',
                      p_optional = Some False, p_default = None\<rparr>)]\<rparr>"

text \<open>A descriptor that declares a parameter by the service's own type name.\<close>

definition string_typed_descriptor :: descriptor where
  "string_typed_descriptor =
     \<lparr>d_name = Some ''search_papers'',
      d_description = Some ''Search papers by title'',
      d_parameters = Some
        [(''title'', \<lparr>p_type = Some ''string'', p_description = Some ''Title words'',
                      p_optional = None, p_default = None\<rparr>)]\<rparr>"

section \<open>Tool execution engine\<close>

text \<open>
  A tool function takes the argument dict of the request and either returns a value or
  raises; \<open>TOOLS[name](**args)\<close> also raises (a \<open>TypeError\<close>) when the arguments do
  not fit the function's parameters. A raise of either kind is an \<open>Inl\<close> of the tool
  function here.
  \<open>TOOLS\<close> is the dispatch table of \<open>tools.py\<close>, lines 208 to 215; its functions read the
  data set, so the table is a parameter.
\<close>

type_synonym tool_fn = "pyval \<Rightarrow> exn + pyval"

definition error_result :: "string \<Rightarrow> pyval" where
  "error_result msg = PDict [(''error'', PStr msg)]"

text \<open>\<open>agent.py\<close>, lines 77 to 86. The result type can express a raise; no branch does.\<close>

definition execute_tool :: "(string \<rightharpoonup> tool_fn) \<Rightarrow> string \<Rightarrow> pyval \<Rightarrow> exn + pyval" where
  "execute_tool TOOLS name args =
     (case TOOLS name of
        None \<Rightarrow> Inr (error_result (''Unknown tool: '' @ name))
      | Some f \<Rightarrow>
          (case f args of
             Inr result \<Rightarrow> Inr result
           | Inl e \<Rightarrow> Inr (error_result (exn_str e))))"

section \<open>Conversation orchestrator\<close>

text \<open>The parts of a reply of the reasoning service, and the reply.\<close>

datatype content_block =
    TextBlock (block_text: string)
  | ToolUseBlock (block_id: string) (block_name: string) (block_input: pyval)

record response =
  stop_reason :: string
  resp_content :: "content_block list"

text \<open>The history: the user's question, a reply of the service, or a list of tool results.\<close>

record tool_result =
  tr_type :: string
  tool_use_id :: string
  tr_content :: string

datatype message_content =
    UserText string
  | AssistantBlocks "content_block list"
  | ToolResults "tool_result list"

record message =
  role :: string
  msg_content :: message_content

text \<open>An entry of \<open>collected_data\<close> (lines 122 to 126).\<close>

record tool_call =
  tc_tool :: string
  tc_args :: pyval
  tc_result :: pyval

record request =
  req_model :: string
  req_max_tokens :: nat
  req_system :: string
  req_tools :: "tool list"
  req_messages :: "message list"

text \<open>
  The agent object. \<open>client\<close> stands for \<open>self.client.messages.create\<close>: a call of the
  service either returns a reply or raises.
\<close>

record agent =
  api_key :: string
  client :: "request \<Rightarrow> exn + response"
  model :: string
  system_prompt :: string

definition SYSTEM_PROMPT :: string where
  "SYSTEM_PROMPT =
     ''You are a data analysis assistant for UMD Computer Science research data from SciSciNet.'' @ nl @
     nl @
     ''You have access to these tools to query the data:'' @ nl @
     ''1. query_papers_by_year(start_year, end_year) - Get paper counts by year'' @ nl @
     ''2. query_top_authors(top_n, metric) - Get top authors by paper_count/h_index/productivity'' @ nl @
     ''3. query_citation_stats() - Get overall citation statistics'' @ nl @
     ''4. query_papers_with_filters(year, min_citations, has_patents, limit) - Filter papers'' @ nl @
     ''5. query_collaboration_stats() - Get collaboration statistics'' @ nl @
     ''6. query_yearly_trend(metric) - Get yearly trends for papers/citations/patents'' @ nl @
     nl @
     ''When the user asks a question:'' @ nl @
     ''1. First determine which tool(s) to call to get the data'' @ nl @
     ''2. Call the appropriate tool(s)'' @ nl @
     ''3. Analyze the results'' @ nl @
     ''4. If visualization is appropriate, generate a Vega-Lite specification'' @ nl @
     ''5. Respond with both the analysis and the visualization spec'' @ nl @
     nl @
     ''For Vega-Lite charts, use this format in your response:'' @ nl @
     ''```vega-lite'' @ nl @
     ''{your vega-lite spec here}'' @ nl @
     ''```'' @ nl @
     nl @
     ''Keep responses concise and data-driven. Always include specific numbers from the data.''"

text \<open>
  \<open>__init__\<close> (lines 15 to 46). \<open>api_key or os.getenv(...)\<close> takes the argument when it is
  neither \<open>None\<close> nor empty, and the environment's value otherwise; \<open>not self.api_key\<close>
  holds for \<open>None\<close> and for the empty string. The constructor of the service's client
  and the environment's value are parameters.
\<close>

definition py_or :: "string option \<Rightarrow> string option \<Rightarrow> string option" where
  "py_or a b = (case a of None \<Rightarrow> b | Some s \<Rightarrow> if s = [] then b else Some s)"

definition init ::
  "(string \<Rightarrow> request \<Rightarrow> exn + response) \<Rightarrow> string option \<Rightarrow> string option \<Rightarrow> exn + agent"
where
  "init Anthropic api_key_arg getenv =
     (case py_or api_key_arg getenv of
        None \<Rightarrow> Inl (ValueError ''ANTHROPIC_API_KEY not found'')
      | Some k \<Rightarrow>
          if k = [] then Inl (ValueError ''ANTHROPIC_API_KEY not found'')
          else Inr \<lparr>api_key = k, client = Anthropic k,
                     model = ''claude-sonnet-4-20250514'', system_prompt = SYSTEM_PROMPT\<rparr>)"

text \<open>
  \<open>[block for block in response.content if block.type == "tool_use"]\<close> (line 116).
\<close>

fun is_tool_use :: "content_block \<Rightarrow> bool" where
  "is_tool_use (ToolUseBlock i n a) = True"
| "is_tool_use (TextBlock t) = False"

text \<open>
  The loop over the tool requests (lines 119 to 131) with its two accumulators.
  \<open>json.dumps\<close> is a parameter. Reading \<open>name\<close> of a text block would raise.
\<close>

fun run_tool_uses ::
  "(string \<rightharpoonup> tool_fn) \<Rightarrow> (pyval \<Rightarrow> string) \<Rightarrow> content_block list \<Rightarrow>
   tool_call list \<Rightarrow> tool_result list \<Rightarrow> exn + (tool_call list \<times> tool_result list)"
where
  "run_tool_uses TOOLS dumps [] collected_data tool_results =
     Inr (collected_data, tool_results)"
| "run_tool_uses TOOLS dumps (TextBlock t # rest) collected_data tool_results =
     Inl (AttributeError (quoted ''TextBlock'' @ '' object has no attribute '' @ quoted ''name''))"
| "run_tool_uses TOOLS dumps (ToolUseBlock i n a # rest) collected_data tool_results =
     (case execute_tool TOOLS n a of
        Inl e \<Rightarrow> Inl e
      | Inr result \<Rightarrow>
          run_tool_uses TOOLS dumps rest
            (collected_data @ [\<lparr>tc_tool = n, tc_args = a, tc_result = result\<rparr>])
            (tool_results @
               [\<lparr>tr_type = ''tool_result'', tool_use_id = i, tr_content = dumps result\<rparr>]))"

text \<open>
  The body of the \<open>while\<close> loop up to the next call of the service (lines 115 to 135):
  the new history and the new \<open>collected_data\<close>.
\<close>

definition tool_round ::
  "(string \<rightharpoonup> tool_fn) \<Rightarrow> (pyval \<Rightarrow> string) \<Rightarrow> response \<Rightarrow>
   message list \<Rightarrow> tool_call list \<Rightarrow> exn + (message list \<times> tool_call list)"
where
  "tool_round TOOLS dumps resp messages collected_data =
     (case run_tool_uses TOOLS dumps (filter is_tool_use (resp_content resp)) collected_data [] of
        Inl e \<Rightarrow> Inl e
      | Inr (collected_data', tool_results) \<Rightarrow>
          Inr (messages @
                 [\<lparr>role = ''assistant'', msg_content = AssistantBlocks (resp_content resp)\<rparr>,
                  \<lparr>role = ''user'', msg_content = ToolResults tool_results\<rparr>],
               collected_data'))"

text \<open>
  The \<open>while\<close> loop (lines 114 to 143). \<open>send\<close> is the call of the service on a history.
  The source has no bound on the number of rounds: a service that asks for tools forever
  keeps the loop running, and the value is then \<open>None\<close>.
\<close>

partial_function (option) tool_loop ::
  "(message list \<Rightarrow> exn + response) \<Rightarrow> (string \<rightharpoonup> tool_fn) \<Rightarrow> (pyval \<Rightarrow> string) \<Rightarrow>
   response \<Rightarrow> message list \<Rightarrow> tool_call list \<Rightarrow>
   (exn + (response \<times> message list \<times> tool_call list)) option"
where
  "tool_loop send TOOLS dumps resp messages collected_data =
     (if stop_reason resp = ''tool_use'' then
        (case tool_round TOOLS dumps resp messages collected_data of
           Inl e \<Rightarrow> Some (Inl e)
         | Inr (messages', collected_data') \<Rightarrow>
             (case send messages' of
                Inl e \<Rightarrow> Some (Inl e)
              | Inr resp' \<Rightarrow> tool_loop send TOOLS dumps resp' messages' collected_data'))
      else Some (Inr (resp, messages, collected_data)))"

text \<open>The final text (lines 146 to 149): the text blocks of the last reply, in order.\<close>

fun text_of_blocks :: "content_block list \<Rightarrow> string" where
  "text_of_blocks [] = ''''"
| "text_of_blocks (TextBlock t # rest) = t @ text_of_blocks rest"
| "text_of_blocks (ToolUseBlock i n a # rest) = text_of_blocks rest"

section \<open>Visualization spec extractor\<close>

text \<open>
  \<open>re.findall(r'```(?:vega-lite|json)\s*\n?([\s\S]*?)```', text)\<close> (lines 155, 156).

  \<open>match_open\<close> is the opening tag at the start of the text. After it, the greedy \<open>\s*\<close>
  takes all white space, so the optional line feed that follows matches nothing; the
  lazy group then ends at the first closing fence, which \<open>find_fence\<close> looks for (a
  shorter \<open>\s*\<close> cannot find a fence that this one misses: the characters it gives back
  are white space). \<open>findall_vega\<close> collects group 1 of the matches from left to right,
  resuming after each match, and one character further where there is none.
\<close>

fun find_fence :: "string \<Rightarrow> (string \<times> string) option" where
  "find_fence [] = None"
| "find_fence (c # cs) =
     (if prefix ''```'' (c # cs) then Some ([], drop 3 (c # cs))
      else (case find_fence cs of
              None \<Rightarrow> None
            | Some (g, rest) \<Rightarrow> Some (c # g, rest)))"

definition match_open :: "string \<Rightarrow> string option" where
  "match_open s =
     (if prefix ''```vega-lite'' s then Some (drop 12 s)
      else if prefix ''```json'' s then Some (drop 7 s)
      else None)"

definition match_at :: "string \<Rightarrow> (string \<times> string) option" where
  "match_at s =
     (case match_open s of
        None \<Rightarrow> None
      | Some r \<Rightarrow> find_fence (str_lstrip r))"

lemma str_lstrip_length: "length (str_lstrip s) \<le> length s"
proof (induction s rule: str_lstrip.induct)
  case (1 s)
  show ?case
  proof (cases "skip_space s")
    case None
    then show ?thesis by (subst str_lstrip.simps) simp
  next
    case (Some r)
    with 1 have "length (str_lstrip r) \<le> length r" by simp
    moreover from Some have "length r < length s" by (rule skip_space_shorter)
    ultimately show ?thesis using Some by (subst str_lstrip.simps) simp
  qed
qed

lemma find_fence_shorter: "find_fence s = Some (g, rest) \<Longrightarrow> length rest < length s"
  by (induction s arbitrary: g) (auto split: if_splits option.splits)

lemma match_at_shorter:
  assumes "match_at s = Some (g, rest)"
  shows "length rest < length s"
proof -
  from assms obtain r where r: "match_open s = Some r"
    and f: "find_fence (str_lstrip r) = Some (g, rest)"
    by (auto simp: match_at_def split: option.splits)
  from r have "length r \<le> length s"
    by (auto simp: match_open_def split: if_splits)
  moreover have "length (str_lstrip r) \<le> length r"
    by (rule str_lstrip_length)
  moreover from f have "length rest < length (str_lstrip r)"
    by (rule find_fence_shorter)
  ultimately show ?thesis by simp
qed

function findall_vega :: "string \<Rightarrow> string list" where
  "findall_vega [] = []"
| "findall_vega (c # cs) =
     (case match_at (c # cs) of
        None \<Rightarrow> findall_vega cs
      | Some (g, rest) \<Rightarrow> g # findall_vega rest)"
  by pat_completeness auto
termination findall_vega
  by (relation "measure length") (auto dest: match_at_shorter)

text \<open>
  The two tests of lines 162 and 166, with Python's short-circuit \<open>and\<close> and \<open>or\<close>.
\<close>

definition clause_a :: "pyval \<Rightarrow> exn + bool" where
  "clause_a spec =
     (case py_in ''$schema'' spec of
        Inl e \<Rightarrow> Inl e
      | Inr False \<Rightarrow> Inr False
      | Inr True \<Rightarrow>
          (case py_get spec ''$schema'' (PStr '''') of
             Inl e \<Rightarrow> Inl e
           | Inr v \<Rightarrow> py_in ''vega'' v))"

definition clause_b :: "pyval \<Rightarrow> exn + bool" where
  "clause_b spec =
     (case py_in ''data'' spec of
        Inl e \<Rightarrow> Inl e
      | Inr False \<Rightarrow> Inr False
      | Inr True \<Rightarrow>
          (case py_in ''mark'' spec of
             Inl e \<Rightarrow> Inl e
           | Inr True \<Rightarrow> Inr True
           | Inr False \<Rightarrow> py_in ''layer'' spec))"

text \<open>
  The body of the \<open>try\<close> (lines 160 to 168) on one match: \<open>Some spec\<close> when the loop
  breaks with this candidate, \<open>None\<close> when it goes on. \<open>json.loads\<close> is a parameter.
\<close>

definition try_candidate :: "(string \<Rightarrow> exn + pyval) \<Rightarrow> string \<Rightarrow> exn + pyval option" where
  "try_candidate loads m =
     (case loads (str_strip m) of
        Inl e \<Rightarrow> Inl e
      | Inr spec \<Rightarrow>
          (case clause_a spec of
             Inl e \<Rightarrow> Inl e
           | Inr True \<Rightarrow> Inr (Some spec)
           | Inr False \<Rightarrow>
               (case clause_b spec of
                  Inl e \<Rightarrow> Inl e
                | Inr True \<Rightarrow> Inr (Some spec)
                | Inr False \<Rightarrow> Inr None)))"

text \<open>
  The loop over the matches (lines 158 to 170): only \<open>json.JSONDecodeError\<close> is caught.
\<close>

fun scan_matches :: "(string \<Rightarrow> exn + pyval) \<Rightarrow> string list \<Rightarrow> exn + pyval option" where
  "scan_matches loads [] = Inr None"
| "scan_matches loads (m # ms) =
     (case try_candidate loads m of
        Inl (JSONDecodeError msg) \<Rightarrow> scan_matches loads ms
      | Inl e \<Rightarrow> Inl e
      | Inr (Some spec) \<Rightarrow> Inr (Some spec)
      | Inr None \<Rightarrow> scan_matches loads ms)"

definition extract_vega_lite :: "(string \<Rightarrow> exn + pyval) \<Rightarrow> string \<Rightarrow> exn + pyval option" where
  "extract_vega_lite loads text_response = scan_matches loads (findall_vega text_response)"

section \<open>The request handler\<close>

record chat_result =
  cr_text :: string
  cr_vega_lite :: "pyval option"
  cr_data :: "tool_call list"

text \<open>
  \<open>chat\<close> (lines 88 to 176). The value is \<open>None\<close> when the loop never ends, \<open>Inl\<close> when
  an exception leaves the function.
\<close>

definition chat ::
  "agent \<Rightarrow> (string \<times> descriptor) list \<Rightarrow> (string \<rightharpoonup> tool_fn) \<Rightarrow> (pyval \<Rightarrow> string) \<Rightarrow>
   (string \<Rightarrow> exn + pyval) \<Rightarrow> string \<Rightarrow> (exn + chat_result) option"
where
  "chat self descriptions TOOLS dumps loads user_message =
     (let messages = [\<lparr>role = ''user'', msg_content = UserText user_message\<rparr>] in
      case get_tools_for_api descriptions of
        Inl e \<Rightarrow> Some (Inl e)
      | Inr tools \<Rightarrow>
          (let send = (\<lambda>ms. client self
                         \<lparr>req_model = model self, req_max_tokens = 4096,
                          req_system = system_prompt self, req_tools = tools,
                          req_messages = ms\<rparr>) in
           case send messages of
             Inl e \<Rightarrow> Some (Inl e)
           | Inr resp \<Rightarrow>
               (case tool_loop send TOOLS dumps resp messages [] of
                  None \<Rightarrow> None
                | Some (Inl e) \<Rightarrow> Some (Inl e)
                | Some (Inr (final, messages', collected_data)) \<Rightarrow>
                    (let text_response = text_of_blocks (resp_content final) in
                     case extract_vega_lite loads text_response of
                       Inl e \<Rightarrow> Some (Inl e)
                     | Inr vega_lite \<Rightarrow>
                         Some (Inr \<lparr>cr_text = text_response, cr_vega_lite = vega_lite,
                                    cr_data = collected_data\<rparr>)))))"

section \<open>The paper query\<close>

text \<open>
  \<open>tools.py\<close>, lines 98 to 118. The data frame that \<open>load_papers()\<close> returns is a
  parameter: a list of rows with the four columns the function reads.
\<close>

record paper =
  paperid :: string
  year :: int
  cited_by_count :: int
  patent_count :: int

text \<open>
  \<open>df.head(n)\<close>: the first \<open>n\<close> rows, and all but the last \<open>-n\<close> rows when \<open>n\<close> is
  negative. \<open>sort_values('cited_by_count', ascending=False)\<close> returns the rows in
  descending order of the count. Its default algorithm is not stable, so the order among
  rows of equal count is not fixed by the call; the model keeps their order.
\<close>

definition df_head :: "int \<Rightarrow> 'a list \<Rightarrow> 'a list" where
  "df_head n rows = (if 0 \<le> n then take (nat n) rows else take (nat (int (length rows) + n)) rows)"

definition sort_by_citations_desc :: "paper list \<Rightarrow> paper list" where
  "sort_by_citations_desc rows = sort_key (\<lambda>r. - cited_by_count r) rows"

text \<open>
  \<open>if year:\<close> and \<open>if min_citations:\<close> on an \<open>Optional[int]\<close> are false for
  \<open>None\<close> and for \<open>0\<close>; \<open>if has_patents:\<close> on an \<open>Optional[bool]\<close> is false for
  \<open>None\<close> and for \<open>False\<close>.
\<close>

definition query_papers_with_filters ::
  "paper list \<Rightarrow> int option \<Rightarrow> int option \<Rightarrow> bool option \<Rightarrow> int \<Rightarrow> paper list"
where
  "query_papers_with_filters papers year_arg min_citations has_patents limit =
     (let df = papers;
          df = (case year_arg of
                  None \<Rightarrow> df
                | Some y \<Rightarrow> if y \<noteq> 0 then filter (\<lambda>r. year r = y) df else df);
          df = (case min_citations of
                  None \<Rightarrow> df
                | Some m \<Rightarrow> if m \<noteq> 0 then filter (\<lambda>r. cited_by_count r \<ge> m) df else df);
          df = (case has_patents of
                  None \<Rightarrow> df
                | Some b \<Rightarrow> if b then filter (\<lambda>r. patent_count r > 0) df else df)
      in df_head limit (sort_by_citations_desc df))"

section \<open>Scripted collaborators\<close>

text \<open>
  Stand-ins for the collaborators that are parameters of the model, for running it on
  concrete inputs: a dispatch table with one tool that returns and one that raises, and a
  parser that knows the documents of a table and raises \<open>JSONDecodeError\<close> on every
  other text, as \<open>json.loads\<close> does on text that is not JSON.
\<close>

definition stats_tool :: tool_fn where
  "stats_tool args = Inr (PDict [(''total_papers'', PInt 3)])"

definition missing_data_tool :: tool_fn where
  "missing_data_tool args = Inl (OtherException ''No such file or directory'')"

definition example_TOOLS :: "string \<rightharpoonup> tool_fn" where
  "example_TOOLS =
     map_of
       [(''query_citation_stats'', stats_tool),
        (''query_collaboration_stats'', missing_data_tool)]"

definition scripted_loads :: "(string \<times> pyval) list \<Rightarrow> string \<Rightarrow> exn + pyval" where
  "scripted_loads table s =
     (case map_of table s of
        None \<Rightarrow> Inl (JSONDecodeError ''Expecting value'')
      | Some v \<Rightarrow> Inr v)"

definition example_reply :: response where
  "example_reply =
     \<lparr>stop_reason = ''tool_use'',
      resp_content =
        [TextBlock ''Let me look.'',
         ToolUseBlock ''toolu_01'' ''query_citation_stats'' (PDict []),
         ToolUseBlock ''toolu_02'' ''query_collaboration_stats'' (PDict [])]\<rparr>"

text \<open>
  A scripted service: the history grows by two messages in every round, so the reply to
  a history of \<open>2 * k + 1\<close> messages is the \<open>k\<close>-th reply of the script; the call
  raises when the script is used up.
\<close>

definition scripted_service :: "response list \<Rightarrow> message list \<Rightarrow> exn + response" where
  "scripted_service script ms =
     (if length ms div 2 < length script then Inr (script ! (length ms div 2))
      else Inl (OtherException ''Connection error.''))"

definition example_final_reply :: response where
  "example_final_reply =
     \<lparr>stop_reason = ''end_turn'', resp_content = [TextBlock ''There are 3 papers.'']\<rparr>"

definition example_question :: message where
  "example_question = \<lparr>role = ''user'', msg_content = UserText ''How many papers?''\<rparr>"

definition example_agent :: agent where
  "example_agent =
     \<lparr>api_key = ''sk-test'',
      client = (\<lambda>req. scripted_service [example_reply, example_final_reply] (req_messages req)),
      model = ''claude-sonnet-4-20250514'',
      system_prompt = SYSTEM_PROMPT\<rparr>"

definition example_papers :: "paper list" where
  "example_papers =
     [\<lparr>paperid = ''W1'', year = 2020, cited_by_count = 12, patent_count = 0\<rparr>,
      \<lparr>paperid = ''W2'', year = 2021, cited_by_count = 40, patent_count = 2\<rparr>,
      \<lparr>paperid = ''W3'', year = 2021, cited_by_count = 0, patent_count = 0\<rparr>]"

section \<open>The acceptance rule of the specification\<close>

text \<open>
  In the words of the specification: a document (a key/value tree) is accepted when it
  has a schema-identifier field whose value contains the marker \<open>vega\<close> (clause A), or
  when it has a \<open>data\<close> field and at least one of a \<open>mark\<close> or a \<open>layer\<close> field
  (clause B). A value that is not a dict has no fields.
\<close>

fun spec_clause_a :: "pyval \<Rightarrow> bool" where
  "spec_clause_a (PDict kvs) =
     (case map_of kvs ''$schema'' of
        Some (PStr s) \<Rightarrow> sublist ''vega'' s
      | _ \<Rightarrow> False)"
| "spec_clause_a v = False"

fun spec_clause_b :: "pyval \<Rightarrow> bool" where
  "spec_clause_b (PDict kvs) =
     (''data'' \<in> set (map fst kvs) \<and>
      (''mark'' \<in> set (map fst kvs) \<or> ''layer'' \<in> set (map fst kvs)))"
| "spec_clause_b v = False"

definition spec_accepts :: "pyval \<Rightarrow> bool" where
  "spec_accepts v = (spec_clause_a v \<or> spec_clause_b v)"

text \<open>
  The first candidate, in the order of the document, that parses to an accepted
  document; a candidate that does not parse is passed over.
\<close>

fun spec_first_accepted :: "(string \<Rightarrow> exn + pyval) \<Rightarrow> string list \<Rightarrow> pyval option" where
  "spec_first_accepted loads [] = None"
| "spec_first_accepted loads (m # ms) =
     (case loads (str_strip m) of
        Inl e \<Rightarrow> spec_first_accepted loads ms
      | Inr v \<Rightarrow> if spec_accepts v then Some v else spec_first_accepted loads ms)"

text \<open>
  The candidates on which the code and the rule agree: the text fails to parse with
  \<open>JSONDecodeError\<close>, or it parses to a dict whose \<open>$schema\<close> entry, if there is one, is a
  string.
\<close>

fun plain_document :: "pyval \<Rightarrow> bool" where
  "plain_document (PDict kvs) =
     (case map_of kvs ''$schema'' of
        None \<Rightarrow> True
      | Some (PStr s) \<Rightarrow> True
      | Some v \<Rightarrow> False)"
| "plain_document v = False"

definition plain_candidate :: "(string \<Rightarrow> exn + pyval) \<Rightarrow> string \<Rightarrow> bool" where
  "plain_candidate loads m =
     (case loads (str_strip m) of
        Inl (JSONDecodeError msg) \<Rightarrow> True
      | Inl e \<Rightarrow> False
      | Inr v \<Rightarrow> plain_document v)"

text \<open>Texts of candidates and of final answers, for running the extractor on.\<close>

definition dq :: string where
  "dq = [CHR 0x22]"

definition list_candidate :: string where
  "list_candidate = ''['' @ dq @ ''data'' @ dq @ '', '' @ dq @ ''mark'' @ dq @ '']''"

definition chart_candidate :: string where
  "chart_candidate =
     ''{'' @ dq @ ''data'' @ dq @ '': {'' @ dq @ ''values'' @ dq @ '': []}, '' @
     dq @ ''mark'' @ dq @ '': '' @ dq @ ''bar'' @ dq @ ''}''"

definition chart_document :: pyval where
  "chart_document =
     PDict [(''data'', PDict [(''values'', PList [])]), (''mark'', PStr ''bar'')]"

definition answer_with_list_first :: string where
  "answer_with_list_first =
     ''The fields are:'' @ nl @ ''```json'' @ nl @ list_candidate @ nl @ ''```'' @ nl @
     ''and the chart:'' @ nl @ ''```vega-lite'' @ nl @ chart_candidate @ nl @ ''```'' @ nl"

definition answer_with_number :: string where
  "answer_with_number =
     ''The count is:'' @ nl @ ''```json'' @ nl @ ''42'' @ nl @ ''```'' @ nl"

definition answer_with_broken_block :: string where
  "answer_with_broken_block =
     ''A draft:'' @ nl @ ''```json'' @ nl @ ''{'' @ dq @ ''data'' @ dq @ '': '' @ nl @ ''```'' @ nl @
     ''and the chart:'' @ nl @ ''```vega-lite'' @ nl @ chart_candidate @ nl @ ''```'' @ nl"

text \<open>
  An agent whose service answers every request with one final reply that carries the
  given text.
\<close>

definition final_reply :: "string \<Rightarrow> response" where
  "final_reply answer = \<lparr>stop_reason = ''end_turn'', resp_content = [TextBlock answer]\<rparr>"

definition answering_agent :: "string \<Rightarrow> agent" where
  "answering_agent answer =
     \<lparr>api_key = ''sk-test'',
      client = (\<lambda>req. Inr (final_reply answer)),
      model = ''claude-sonnet-4-20250514'',
      system_prompt = SYSTEM_PROMPT\<rparr>"

section \<open>Properties of replacement\<close>

lemma str_replace_absent:
  "old \<noteq> [] \<Longrightarrow> \<not> sublist old s \<Longrightarrow> str_replace old new s = s"
  by (induction s) (auto simp: sublist_Cons_right)

lemma prefix_split_length:
  assumes "prefix old s"
  shows "length s = length old + length (drop (length old) s)"
  using prefix_length_le [OF assms] by simp

lemma str_replace_length:
  "length old \<le> length new \<Longrightarrow> length s \<le> length (str_replace old new s)"
proof (induction old new s rule: str_replace.induct)
  case (1 old new)
  then show ?case by simp
next
  case (2 old new c cs)
  show ?case
  proof (cases "old \<noteq> [] \<and> prefix old (c # cs)")
    case True
    then have "prefix old (c # cs)" by simp
    then have "length (c # cs) = length old + length (drop (length old) (c # cs))"
      by (rule prefix_split_length)
    with 2 True show ?thesis by auto
  next
    case False
    with 2 show ?thesis by auto
  qed
qed

lemma str_replace_grows:
  "old \<noteq> [] \<Longrightarrow> length old < length new \<Longrightarrow> sublist old s \<Longrightarrow>
     length s < length (str_replace old new s)"
proof (induction old new s rule: str_replace.induct)
  case (1 old new)
  then show ?case by simp
next
  case (2 old new c cs)
  show ?case
  proof (cases "prefix old (c # cs)")
    case True
    then have "length (c # cs) = length old + length (drop (length old) (c # cs))"
      by (rule prefix_split_length)
    moreover have "length (drop (length old) (c # cs))
        \<le> length (str_replace old new (drop (length old) (c # cs)))"
      using 2(5) by (intro str_replace_length) simp
    ultimately show ?thesis using 2 True by auto
  next
    case False
    with 2 show ?thesis by (auto simp: sublist_Cons_right)
  qed
qed

lemma str_replace_fixed_iff:
  assumes "old \<noteq> []" "length old < length new"
  shows "str_replace old new s = s \<longleftrightarrow> \<not> sublist old s"
  using str_replace_absent [OF assms(1), of s new] str_replace_grows [OF assms, of s]
  by auto

lemma normalize_type_length: "length t \<le> length (normalize_type t)"
proof -
  have "length t \<le> length (str_replace ''int'' ''integer'' t)"
    by (rule str_replace_length) simp
  also have "\<dots> \<le> length (str_replace ''str'' ''string'' (str_replace ''int'' ''integer'' t))"
    by (rule str_replace_length) simp
  also have "\<dots> \<le> length (normalize_type t)"
    unfolding normalize_type_def by (rule str_replace_length) simp
  finally show ?thesis .
qed

lemma normalize_type_absent:
  assumes "\<not> mentions_internal_type t"
  shows "normalize_type t = t"
  using assms
  by (simp add: normalize_type_def mentions_internal_type_def str_replace_absent)

lemma normalize_type_fixed_only_if:
  assumes fixed: "normalize_type t = t"
  shows "\<not> mentions_internal_type t"
proof -
  let ?r1 = "str_replace ''int'' ''integer'' t"
  let ?r2 = "str_replace ''str'' ''string'' ?r1"
  have l1: "length t \<le> length ?r1" by (rule str_replace_length) simp
  have l2: "length ?r1 \<le> length ?r2" by (rule str_replace_length) simp
  have l3: "length ?r2 \<le> length (normalize_type t)"
    unfolding normalize_type_def by (rule str_replace_length) simp
  from fixed l1 l2 l3 have e1: "length ?r1 = length t" and e2: "length ?r2 = length ?r1"
    and e3: "length (str_replace ''bool'' ''boolean'' ?r2) = length ?r2"
    by (simp_all add: normalize_type_def)
  have n1: "\<not> sublist ''int'' t"
    using str_replace_grows [of "''int''" "''integer''" t] e1 by auto
  then have r1: "?r1 = t" by (simp add: str_replace_absent)
  have n2: "\<not> sublist ''str'' t"
    using str_replace_grows [of "''str''" "''string''" ?r1] e2 r1 by auto
  then have r2: "?r2 = t" using r1 by (simp add: str_replace_absent)
  have n3: "\<not> sublist ''bool'' t"
    using str_replace_grows [of "''bool''" "''boolean''" ?r2] e3 r2 by auto
  from n1 n2 n3 show ?thesis by (simp add: mentions_internal_type_def)
qed

text \<open>
  The type strings that normalization returns unchanged are exactly those in which none
  of \<open>int\<close>, \<open>str\<close>, \<open>bool\<close> occurs.
\<close>

lemma normalize_type_fixed_points:
  "normalize_type t = t \<longleftrightarrow> \<not> mentions_internal_type t"
  using normalize_type_absent normalize_type_fixed_only_if by blast

lemma normalize_type_internal_types:
  "normalize_type ''int'' = ''integer'' \<and>
   normalize_type ''str'' = ''string'' \<and>
   normalize_type ''bool'' = ''boolean''"
  by (simp add: normalize_type_def)

section \<open>Claims on type normalization\<close>

text \<open>
  C2 does not hold of the code. The claim: \<open>int\<close>, \<open>str\<close>, \<open>bool\<close> are mapped to
  \<open>integer\<close>, \<open>string\<close>, \<open>boolean\<close>, and every other type string is returned unchanged.
  The code replaces substrings: a parameter declared with the type \<open>string\<close>, which is none
  of the three, is sent to the service with the type \<open>stringing\<close>, and \<open>interval\<close> becomes
  \<open>integererval\<close>.
\<close>

theorem declared_type_string_becomes_stringing:
  "normalize_type ''string'' = ''stringing'' \<and>
   normalize_type ''interval'' = ''integererval'' \<and>
   get_tools_for_api [(''search_papers'', string_typed_descriptor)] =
     Inr [\<lparr>tool_name = ''search_papers'',
           tool_description = ''Search papers by title'',
           tool_input_schema =
             \<lparr>schema_type = ''object'',
              properties =
                [(''title'', \<lparr>prop_type = ''stringing'', prop_description = ''Title words''\<rparr>)],
              required = [''title'']\<rparr>\<rparr>]"
  by (simp add: normalize_type_def get_tools_for_api_def tool_for_api_def
        string_typed_descriptor_def)

text \<open>
  C3 does not hold of the code. The claim: normalizing an already normalized type string
  returns it unchanged, in particular \<open>integer\<close>, \<open>string\<close> and \<open>boolean\<close>. The code
  rewrites the names it produces: \<open>int\<close> is normalized to \<open>integer\<close>, and \<open>integer\<close> to
  \<open>integereger\<close>; \<open>string\<close> becomes \<open>stringing\<close> and \<open>boolean\<close> becomes \<open>booleanean\<close>.
\<close>

theorem normalize_type_rewrites_normalized_names:
  "normalize_type ''int'' = ''integer'' \<and>
   normalize_type (normalize_type ''int'') = ''integereger'' \<and>
   normalize_type ''integer'' = ''integereger'' \<and>
   normalize_type (normalize_type ''str'') = ''stringing'' \<and>
   normalize_type (normalize_type ''bool'') = ''booleanean''"
  by (simp add: normalize_type_def)

section \<open>The required list of a tool declaration\<close>

lemma add_parameters_required:
  "add_parameters ps sch = Inr sch' \<Longrightarrow>
     required sch' = required sch @ map fst (filter (\<lambda>(n, p). \<not> spec_omitted p) ps)"
proof (induction ps arbitrary: sch)
  case Nil
  then show ?case by simp
next
  case (Cons a ps)
  obtain n p where a: "a = (n, p)" by (cases a)
  from Cons.prems a obtain ty where ty: "p_type p = Some ty"
    by (cases "p_type p") auto
  show ?case
    using Cons.prems Cons.IH a ty
    by (cases "p_optional p"; cases "p_default p")
       (auto simp: Let_def spec_omitted_def split: if_splits)
qed

lemma add_parameters_succeeds:
  "list_all (\<lambda>(n, p). p_type p \<noteq> None) ps \<Longrightarrow> \<exists>sch'. add_parameters ps sch = Inr sch'"
proof (induction ps arbitrary: sch)
  case Nil
  then show ?case by simp
next
  case (Cons a ps)
  obtain n p where a: "a = (n, p)" by (cases a)
  from Cons.prems a obtain ty where ty: "p_type p = Some ty" by auto
  from Cons.prems have rest: "list_all (\<lambda>(n, p). p_type p \<noteq> None) ps" by simp
  show ?case using a ty Cons.IH [OF rest] by (simp add: Let_def)
qed

lemma add_parameters_fails:
  "\<not> list_all (\<lambda>(n, p). p_type p \<noteq> None) ps \<Longrightarrow>
     add_parameters ps sch = Inl (KeyError (quoted ''type''))"
proof (induction ps arbitrary: sch)
  case Nil
  then show ?case by simp
next
  case (Cons a ps)
  obtain n p where a: "a = (n, p)" by (cases a)
  show ?case using Cons a by (cases "p_type p") (auto simp: Let_def)
qed

lemma tool_for_api_well_formed:
  assumes "well_formed_descriptor info"
  shows "\<exists>t. tool_for_api name info = Inr t \<and> tool_name t = name \<and>
           required (tool_input_schema t) = spec_required info"
proof -
  from assms obtain descr where d: "d_description info = Some descr"
    by (auto simp: well_formed_descriptor_def)
  from assms have "list_all (\<lambda>(n, p). p_type p \<noteq> None) (parameters_of info)"
    by (simp add: well_formed_descriptor_def)
  from add_parameters_succeeds [OF this] obtain sch where
    sch: "add_parameters (parameters_of info)
            \<lparr>schema_type = ''object'', properties = [], required = []\<rparr> = Inr sch"
    by blast
  from add_parameters_required [OF sch] have "required sch = spec_required info"
    by (simp add: spec_required_def)
  with d sch show ?thesis
    by (simp add: tool_for_api_def parameters_of_def)
qed

lemma get_tools_loop_well_formed:
  "list_all (\<lambda>(name, info). well_formed_descriptor info) ds \<Longrightarrow>
     \<exists>ts. get_tools_loop ds acc = Inr (acc @ ts) \<and>
       list_all2 (\<lambda>(name, info) t. tool_name t = name \<and>
          required (tool_input_schema t) = spec_required info) ds ts"
proof (induction ds arbitrary: acc)
  case Nil
  then show ?case by simp
next
  case (Cons a ds)
  obtain name info where a: "a = (name, info)" by (cases a)
  from Cons.prems a have wf: "well_formed_descriptor info"
    and rest: "list_all (\<lambda>(name, info). well_formed_descriptor info) ds" by simp_all
  from tool_for_api_well_formed [OF wf, of name] obtain t where
    t: "tool_for_api name info = Inr t" "tool_name t = name"
       "required (tool_input_schema t) = spec_required info" by blast
  from Cons.IH [OF rest, of "acc @ [t]"] obtain ts where
    ts: "get_tools_loop ds (acc @ [t]) = Inr (acc @ [t] @ ts)"
        "list_all2 (\<lambda>(name, info) t. tool_name t = name \<and>
          required (tool_input_schema t) = spec_required info) ds ts" by auto
  show ?case
    using a t ts by (intro exI [of _ "t # ts"]) simp
qed

lemma TOOL_DESCRIPTIONS_well_formed:
  "list_all (\<lambda>(name, info). well_formed_descriptor info) TOOL_DESCRIPTIONS"
  by (simp add: well_formed_descriptor_def TOOL_DESCRIPTIONS_def parameters_of_def)

lemma TOOL_DESCRIPTIONS_nothing_required:
  "list_all (\<lambda>(name, info). spec_required info = []) TOOL_DESCRIPTIONS"
  by (simp add: spec_required_def spec_omitted_def TOOL_DESCRIPTIONS_def parameters_of_def)

text \<open>
  C1. For every table of descriptors that have a description and a type for each
  parameter, the declarations are built, one per descriptor and under its name, and the
  required list of each holds exactly the parameter names whose own entry neither sets
  \<open>optional\<close> to true nor supplies a default, in the order of the descriptor. Whether a
  name is listed depends on its own entry only: the list is a filter of the parameters.
\<close>

theorem required_list_excludes_exactly_optional_or_defaulted:
  assumes "list_all (\<lambda>(name, info). well_formed_descriptor info) descriptions"
  shows "\<exists>tools. get_tools_for_api descriptions = Inr tools \<and>
           list_all2 (\<lambda>(name, info) t. tool_name t = name \<and>
              required (tool_input_schema t) = spec_required info) descriptions tools"
  using get_tools_loop_well_formed [OF assms, of "[]"]
  by (simp add: get_tools_for_api_def)

theorem required_list_excludes_exactly_optional_or_defaulted_witness:
  "list_all (\<lambda>(name, info). well_formed_descriptor info) [(''lookup'', example_descriptor)] \<and>
   (\<exists>tools. get_tools_for_api [(''lookup'', example_descriptor)] = Inr tools \<and>
      map (\<lambda>t. required (tool_input_schema t)) tools = [[''paperid'', ''exact'']])"
proof -
  have wf: "list_all (\<lambda>(name, info). well_formed_descriptor info)
              [(''lookup'', example_descriptor)]"
    by (simp add: well_formed_descriptor_def example_descriptor_def parameters_of_def)
  have req: "spec_required example_descriptor = [''paperid'', ''exact'']"
    by (simp add: spec_required_def spec_omitted_def example_descriptor_def parameters_of_def)
  from required_list_excludes_exactly_optional_or_defaulted [OF wf] obtain tools where
    tools: "get_tools_for_api [(''lookup'', example_descriptor)] = Inr tools"
    and rel: "list_all2 (\<lambda>(name, info) t. tool_name t = name \<and>
                required (tool_input_schema t) = spec_required info)
                [(''lookup'', example_descriptor)] tools"
    by blast
  from rel req have m: "map (\<lambda>t. required (tool_input_schema t)) tools = [[''paperid'', ''exact'']]"
    by (auto simp: list_all2_Cons1)
  show ?thesis
    by (intro conjI exI [of _ tools]) (rule wf, rule tools, rule m)
qed

section \<open>The execution engine isolates failures\<close>

lemma execute_tool_returns: "\<exists>r. execute_tool TOOLS name args = Inr r"
  by (simp add: execute_tool_def split: option.split sum.split)

text \<open>
  C4. For every tool name that the dispatch table does not hold and every argument
  value, \<open>execute_tool\<close> returns (it is the \<open>Inr\<close> of the result, not a raise) the
  payload \<open>{"error": "Unknown tool: <name>"}\<close>.
\<close>

theorem unknown_tool_yields_error_result:
  "TOOLS name = None \<Longrightarrow>
     execute_tool TOOLS name args = Inr (PDict [(''error'', PStr (''Unknown tool: '' @ name))])"
  by (simp add: execute_tool_def error_result_def)

theorem unknown_tool_yields_error_result_witness:
  "example_TOOLS ''query_everything'' = None \<and>
   execute_tool example_TOOLS ''query_everything'' (PDict [(''limit'', PInt 5)]) =
     Inr (PDict [(''error'', PStr ''Unknown tool: query_everything'')])"
proof -
  have h: "example_TOOLS ''query_everything'' = None"
    by (simp add: example_TOOLS_def)
  show ?thesis
    using h unknown_tool_yields_error_result
            [of example_TOOLS "''query_everything''" "PDict [(''limit'', PInt 5)]"]
    by simp
qed

text \<open>
  C5. For every registered tool whose call raises an exception \<open>e\<close>, \<open>execute_tool\<close>
  returns the payload \<open>{"error": str(e)}\<close>, of the same shape as for an unknown tool,
  and the loop over the tool requests goes on: it records the call with that payload,
  and appends the tool result under the call id.
\<close>

theorem tool_fault_is_caught:
  assumes "TOOLS name = Some f" and "f args = Inl e"
  shows "execute_tool TOOLS name args = Inr (PDict [(''error'', PStr (exn_str e))]) \<and>
         run_tool_uses TOOLS dumps [ToolUseBlock i name args] collected_data tool_results =
           Inr (collected_data @
                  [\<lparr>tc_tool = name, tc_args = args,
                    tc_result = PDict [(''error'', PStr (exn_str e))]\<rparr>],
                tool_results @
                  [\<lparr>tr_type = ''tool_result'', tool_use_id = i,
                    tr_content = dumps (PDict [(''error'', PStr (exn_str e))])\<rparr>])"
  using assms by (simp add: execute_tool_def error_result_def)

theorem tool_fault_is_caught_witness:
  "\<forall>dumps.
     example_TOOLS ''query_collaboration_stats'' = Some missing_data_tool \<and>
     missing_data_tool (PDict []) = Inl (OtherException ''No such file or directory'') \<and>
     execute_tool example_TOOLS ''query_collaboration_stats'' (PDict []) =
       Inr (PDict [(''error'', PStr ''No such file or directory'')]) \<and>
     run_tool_uses example_TOOLS dumps
         [ToolUseBlock ''toolu_02'' ''query_collaboration_stats'' (PDict [])] [] [] =
       Inr ([\<lparr>tc_tool = ''query_collaboration_stats'', tc_args = PDict [],
               tc_result = PDict [(''error'', PStr ''No such file or directory'')]\<rparr>],
            [\<lparr>tr_type = ''tool_result'', tool_use_id = ''toolu_02'',
               tr_content = dumps (PDict [(''error'', PStr ''No such file or directory'')])\<rparr>])"
proof -
  have t: "example_TOOLS ''query_collaboration_stats'' = Some missing_data_tool"
    by (simp add: example_TOOLS_def)
  have r: "missing_data_tool (PDict []) = Inl (OtherException ''No such file or directory'')"
    by (simp add: missing_data_tool_def)
  show ?thesis
    using t r tool_fault_is_caught
      [where TOOLS = example_TOOLS and name = "''query_collaboration_stats''"
         and f = missing_data_tool and args = "PDict []"
         and e = "OtherException ''No such file or directory''"
         and i = "''toolu_02''" and collected_data = "[]" and tool_results = "[]"]
    by simp
qed

section \<open>One round of the orchestrator\<close>

lemma run_tool_uses_appends:
  assumes "list_all is_tool_use uses"
  shows "\<exists>calls results.
      run_tool_uses TOOLS dumps uses collected_data tool_results =
        Inr (collected_data @ calls, tool_results @ results) \<and>
      length calls = length uses \<and> length results = length uses \<and>
      map tc_tool calls = map block_name uses \<and>
      map tc_args calls = map block_input uses \<and>
      list_all2 (\<lambda>u c. execute_tool TOOLS (block_name u) (block_input u) = Inr (tc_result c))
        uses calls \<and>
      map tr_type results = map (\<lambda>u. ''tool_result'') uses \<and>
      map tool_use_id results = map block_id uses \<and>
      map tr_content results = map (\<lambda>c. dumps (tc_result c)) calls"
  using assms
proof (induction uses arbitrary: collected_data tool_results)
  case Nil
  then show ?case by simp
next
  case (Cons u uses)
  from Cons.prems obtain i n a where u: "u = ToolUseBlock i n a"
    by (cases u) auto
  from Cons.prems have rest: "list_all is_tool_use uses" by simp
  obtain r where r: "execute_tool TOOLS n a = Inr r"
    using execute_tool_returns by blast
  let ?c = "\<lparr>tc_tool = n, tc_args = a, tc_result = r\<rparr>"
  let ?t = "\<lparr>tr_type = ''tool_result'', tool_use_id = i, tr_content = dumps r\<rparr>"
  from Cons.IH [OF rest, of "collected_data @ [?c]" "tool_results @ [?t]"]
  obtain calls results where
    run: "run_tool_uses TOOLS dumps uses (collected_data @ [?c]) (tool_results @ [?t]) =
            Inr ((collected_data @ [?c]) @ calls, (tool_results @ [?t]) @ results)"
    and props: "length calls = length uses" "length results = length uses"
      "map tc_tool calls = map block_name uses"
      "map tc_args calls = map block_input uses"
      "list_all2 (\<lambda>u c. execute_tool TOOLS (block_name u) (block_input u) = Inr (tc_result c))
        uses calls"
      "map tr_type results = map (\<lambda>u. ''tool_result'') uses"
      "map tool_use_id results = map block_id uses"
      "map tr_content results = map (\<lambda>c. dumps (tc_result c)) calls"
    by blast
  show ?case
    using u r run props
    by (intro exI [of _ "?c # calls"] exI [of _ "?t # results"]) simp
qed

text \<open>
  C8. For every reply whose stop reason is \<open>tool_use\<close> and that carries \<open>N\<close> tool
  requests, one round appends exactly \<open>N\<close> entries to \<open>collected_data\<close>, the \<open>k\<close>-th
  with the name, the arguments and the result of the \<open>k\<close>-th request (an error payload
  is a result like any other); it appends to the history the reply and then exactly one
  user message, which holds the \<open>N\<close> tool results, each under the id of its request;
  and the next call of the service is made on that history.
\<close>

theorem tool_round_appends_one_record_per_request:
  assumes "stop_reason resp = ''tool_use''"
  shows "\<exists>calls results.
      tool_round TOOLS dumps resp messages collected_data =
        Inr (messages @
               [\<lparr>role = ''assistant'', msg_content = AssistantBlocks (resp_content resp)\<rparr>,
                \<lparr>role = ''user'', msg_content = ToolResults results\<rparr>],
             collected_data @ calls) \<and>
      length calls = length (filter is_tool_use (resp_content resp)) \<and>
      length results = length (filter is_tool_use (resp_content resp)) \<and>
      map tc_tool calls = map block_name (filter is_tool_use (resp_content resp)) \<and>
      map tc_args calls = map block_input (filter is_tool_use (resp_content resp)) \<and>
      list_all2 (\<lambda>u c. execute_tool TOOLS (block_name u) (block_input u) = Inr (tc_result c))
        (filter is_tool_use (resp_content resp)) calls \<and>
      map tool_use_id results = map block_id (filter is_tool_use (resp_content resp)) \<and>
      map tr_content results = map (\<lambda>c. dumps (tc_result c)) calls \<and>
      tool_loop send TOOLS dumps resp messages collected_data =
        (case send (messages @
               [\<lparr>role = ''assistant'', msg_content = AssistantBlocks (resp_content resp)\<rparr>,
                \<lparr>role = ''user'', msg_content = ToolResults results\<rparr>]) of
           Inl e \<Rightarrow> Some (Inl e)
         | Inr resp' \<Rightarrow>
             tool_loop send TOOLS dumps resp'
               (messages @
                 [\<lparr>role = ''assistant'', msg_content = AssistantBlocks (resp_content resp)\<rparr>,
                  \<lparr>role = ''user'', msg_content = ToolResults results\<rparr>])
               (collected_data @ calls))"
proof -
  let ?uses = "filter is_tool_use (resp_content resp)"
  have "list_all is_tool_use ?uses" by (simp add: list_all_iff)
  from run_tool_uses_appends [OF this, of TOOLS dumps collected_data "[]"]
  obtain calls results where
    run: "run_tool_uses TOOLS dumps ?uses collected_data [] = Inr (collected_data @ calls, results)"
    and props: "length calls = length ?uses" "length results = length ?uses"
      "map tc_tool calls = map block_name ?uses"
      "map tc_args calls = map block_input ?uses"
      "list_all2 (\<lambda>u c. execute_tool TOOLS (block_name u) (block_input u) = Inr (tc_result c))
        ?uses calls"
      "map tool_use_id results = map block_id ?uses"
      "map tr_content results = map (\<lambda>c. dumps (tc_result c)) calls"
    by auto
  let ?ms = "messages @
               [\<lparr>role = ''assistant'', msg_content = AssistantBlocks (resp_content resp)\<rparr>,
                \<lparr>role = ''user'', msg_content = ToolResults results\<rparr>]"
  have round: "tool_round TOOLS dumps resp messages collected_data =
      Inr (?ms, collected_data @ calls)"
    using run by (simp add: tool_round_def)
  have loop: "tool_loop send TOOLS dumps resp messages collected_data =
      (case send ?ms of
         Inl e \<Rightarrow> Some (Inl e)
       | Inr resp' \<Rightarrow> tool_loop send TOOLS dumps resp' ?ms (collected_data @ calls))"
    using assms round by (subst tool_loop.simps) simp
  show ?thesis
    using round props loop
    by (intro exI [of _ calls] exI [of _ results]) simp
qed

text \<open>
  The scenario of the specification: a scripted service asks for two tools in its first
  reply and answers in its second. One round leaves two entries in \<open>collected_data\<close>
  and a history of three messages, and the loop ends on the second reply.
\<close>

theorem tool_round_appends_one_record_per_request_witness:
  "\<forall>dumps.
     stop_reason example_reply = ''tool_use'' \<and>
     tool_round example_TOOLS dumps example_reply [example_question] [] =
       Inr ([example_question,
             \<lparr>role = ''assistant'', msg_content = AssistantBlocks (resp_content example_reply)\<rparr>,
             \<lparr>role = ''user'', msg_content = ToolResults
                [\<lparr>tr_type = ''tool_result'', tool_use_id = ''toolu_01'',
                   tr_content = dumps (PDict [(''total_papers'', PInt 3)])\<rparr>,
                 \<lparr>tr_type = ''tool_result'', tool_use_id = ''toolu_02'',
                   tr_content = dumps (PDict [(''error'', PStr ''No such file or directory'')])\<rparr>]\<rparr>],
            [\<lparr>tc_tool = ''query_citation_stats'', tc_args = PDict [],
               tc_result = PDict [(''total_papers'', PInt 3)]\<rparr>,
             \<lparr>tc_tool = ''query_collaboration_stats'', tc_args = PDict [],
               tc_result = PDict [(''error'', PStr ''No such file or directory'')]\<rparr>]) \<and>
     tool_loop (scripted_service [example_reply, example_final_reply]) example_TOOLS dumps
         example_reply [example_question] [] =
       Some (Inr (example_final_reply, [example_question,
             \<lparr>role = ''assistant'', msg_content = AssistantBlocks (resp_content example_reply)\<rparr>,
             \<lparr>role = ''user'', msg_content = ToolResults
                [\<lparr>tr_type = ''tool_result'', tool_use_id = ''toolu_01'',
                   tr_content = dumps (PDict [(''total_papers'', PInt 3)])\<rparr>,
                 \<lparr>tr_type = ''tool_result'', tool_use_id = ''toolu_02'',
                   tr_content = dumps (PDict [(''error'', PStr ''No such file or directory'')])\<rparr>]\<rparr>],
            [\<lparr>tc_tool = ''query_citation_stats'', tc_args = PDict [],
               tc_result = PDict [(''total_papers'', PInt 3)]\<rparr>,
             \<lparr>tc_tool = ''query_collaboration_stats'', tc_args = PDict [],
               tc_result = PDict [(''error'', PStr ''No such file or directory'')]\<rparr>]))"
proof
  fix dumps :: "pyval \<Rightarrow> string"
  have h: "stop_reason example_reply = ''tool_use''"
    by (simp add: example_reply_def)
  have r: "tool_round example_TOOLS dumps example_reply [example_question] [] =
       Inr ([example_question,
             \<lparr>role = ''assistant'', msg_content = AssistantBlocks (resp_content example_reply)\<rparr>,
             \<lparr>role = ''user'', msg_content = ToolResults
                [\<lparr>tr_type = ''tool_result'', tool_use_id = ''toolu_01'',
                   tr_content = dumps (PDict [(''total_papers'', PInt 3)])\<rparr>,
                 \<lparr>tr_type = ''tool_result'', tool_use_id = ''toolu_02'',
                   tr_content = dumps (PDict [(''error'', PStr ''No such file or directory'')])\<rparr>]\<rparr>],
            [\<lparr>tc_tool = ''query_citation_stats'', tc_args = PDict [],
               tc_result = PDict [(''total_papers'', PInt 3)]\<rparr>,
             \<lparr>tc_tool = ''query_collaboration_stats'', tc_args = PDict [],
               tc_result = PDict [(''error'', PStr ''No such file or directory'')]\<rparr>])"
    by (simp add: tool_round_def example_reply_def execute_tool_def example_TOOLS_def
          stats_tool_def missing_data_tool_def error_result_def)
  have fin: "stop_reason example_final_reply \<noteq> ''tool_use''"
    by (simp add: example_final_reply_def)
  have l: "tool_loop (scripted_service [example_reply, example_final_reply]) example_TOOLS dumps
         example_reply [example_question] [] =
       Some (Inr (example_final_reply, [example_question,
             \<lparr>role = ''assistant'', msg_content = AssistantBlocks (resp_content example_reply)\<rparr>,
             \<lparr>role = ''user'', msg_content = ToolResults
                [\<lparr>tr_type = ''tool_result'', tool_use_id = ''toolu_01'',
                   tr_content = dumps (PDict [(''total_papers'', PInt 3)])\<rparr>,
                 \<lparr>tr_type = ''tool_result'', tool_use_id = ''toolu_02'',
                   tr_content = dumps (PDict [(''error'', PStr ''No such file or directory'')])\<rparr>]\<rparr>],
            [\<lparr>tc_tool = ''query_citation_stats'', tc_args = PDict [],
               tc_result = PDict [(''total_papers'', PInt 3)]\<rparr>,
             \<lparr>tc_tool = ''query_collaboration_stats'', tc_args = PDict [],
               tc_result = PDict [(''error'', PStr ''No such file or directory'')]\<rparr>]))"
    using h r fin
    by (simp add: tool_loop.simps [of _ _ _ example_reply]
          tool_loop.simps [of _ _ _ example_final_reply] scripted_service_def)
  show "stop_reason example_reply = ''tool_use'' \<and>
     tool_round example_TOOLS dumps example_reply [example_question] [] =
       Inr ([example_question,
             \<lparr>role = ''assistant'', msg_content = AssistantBlocks (resp_content example_reply)\<rparr>,
             \<lparr>role = ''user'', msg_content = ToolResults
                [\<lparr>tr_type = ''tool_result'', tool_use_id = ''toolu_01'',
                   tr_content = dumps (PDict [(''total_papers'', PInt 3)])\<rparr>,
                 \<lparr>tr_type = ''tool_result'', tool_use_id = ''toolu_02'',
                   tr_content = dumps (PDict [(''error'', PStr ''No such file or directory'')])\<rparr>]\<rparr>],
            [\<lparr>tc_tool = ''query_citation_stats'', tc_args = PDict [],
               tc_result = PDict [(''total_papers'', PInt 3)]\<rparr>,
             \<lparr>tc_tool = ''query_collaboration_stats'', tc_args = PDict [],
               tc_result = PDict [(''error'', PStr ''No such file or directory'')]\<rparr>]) \<and>
     tool_loop (scripted_service [example_reply, example_final_reply]) example_TOOLS dumps
         example_reply [example_question] [] =
       Some (Inr (example_final_reply, [example_question,
             \<lparr>role = ''assistant'', msg_content = AssistantBlocks (resp_content example_reply)\<rparr>,
             \<lparr>role = ''user'', msg_content = ToolResults
                [\<lparr>tr_type = ''tool_result'', tool_use_id = ''toolu_01'',
                   tr_content = dumps (PDict [(''total_papers'', PInt 3)])\<rparr>,
                 \<lparr>tr_type = ''tool_result'', tool_use_id = ''toolu_02'',
                   tr_content = dumps (PDict [(''error'', PStr ''No such file or directory'')])\<rparr>]\<rparr>],
            [\<lparr>tc_tool = ''query_citation_stats'', tc_args = PDict [],
               tc_result = PDict [(''total_papers'', PInt 3)]\<rparr>,
             \<lparr>tc_tool = ''query_collaboration_stats'', tc_args = PDict [],
               tc_result = PDict [(''error'', PStr ''No such file or directory'')]\<rparr>]))"
    using tool_round_appends_one_record_per_request
            [OF h, of example_TOOLS dumps "[example_question]" "[]"
               "scripted_service [example_reply, example_final_reply]"]
    by - (intro conjI, rule h, rule r, rule l)
qed

section \<open>The extractor\<close>

text \<open>
  Where every candidate either fails to parse or parses to a dict whose \<open>$schema\<close>
  entry, if any, is a string, the loop returns the first candidate that the rule of the
  specification accepts. A text without a fence has no candidate.
\<close>

lemma py_in_dict: "py_in k (PDict kvs) = Inr (map_of kvs k \<noteq> None)"
  by (simp add: map_of_eq_None_iff)

lemma clause_a_plain:
  assumes "plain_document v"
  shows "clause_a v = Inr (spec_clause_a v)"
proof (cases v)
  case (PDict kvs)
  show ?thesis
  proof (cases "map_of kvs ''$schema''")
    case None
    with PDict show ?thesis by (simp add: clause_a_def py_in_dict del: py_in.simps)
  next
    case (Some w)
    with assms PDict obtain s where w: "w = PStr s" by (cases w) auto
    with Some PDict show ?thesis by (simp add: clause_a_def py_in_dict del: py_in.simps(1))
  qed
qed (use assms in simp_all)

lemma clause_b_plain:
  assumes "plain_document v"
  shows "clause_b v = Inr (spec_clause_b v)"
proof (cases v)
  case (PDict kvs)
  then show ?thesis
    by (cases "''data'' \<in> set (map fst kvs)"; cases "''mark'' \<in> set (map fst kvs)")
       (simp_all add: clause_b_def)
qed (use assms in simp_all)

lemma try_candidate_plain:
  assumes "loads (str_strip m) = Inr v" and "plain_document v"
  shows "try_candidate loads m = Inr (if spec_accepts v then Some v else None)"
  using assms(1) clause_a_plain [OF assms(2)] clause_b_plain [OF assms(2)]
  by (cases "spec_clause_a v"; cases "spec_clause_b v")
     (simp_all add: try_candidate_def spec_accepts_def)

lemma try_candidate_decode_error:
  "loads (str_strip m) = Inl e \<Longrightarrow> try_candidate loads m = Inl e"
  by (simp add: try_candidate_def)

lemma scan_matches_plain:
  "list_all (plain_candidate loads) ms \<Longrightarrow>
     scan_matches loads ms = Inr (spec_first_accepted loads ms)"
proof (induction ms)
  case Nil
  then show ?case by simp
next
  case (Cons m ms)
  then have p: "plain_candidate loads m" and rest: "list_all (plain_candidate loads) ms"
    by simp_all
  from Cons.IH [OF rest] have ih: "scan_matches loads ms = Inr (spec_first_accepted loads ms)" .
  show ?case
  proof (cases "loads (str_strip m)")
    case (Inl e)
    with p obtain msg where "e = JSONDecodeError msg"
      by (cases e) (auto simp: plain_candidate_def)
    with Inl ih show ?thesis by (simp add: try_candidate_decode_error)
  next
    case (Inr v)
    with p have "plain_document v" by (simp add: plain_candidate_def)
    from try_candidate_plain [of loads m v, OF Inr this] Inr ih show ?thesis by simp
  qed
qed

lemma extract_vega_lite_plain:
  "list_all (plain_candidate loads) (findall_vega text_response) \<Longrightarrow>
     extract_vega_lite loads text_response =
       Inr (spec_first_accepted loads (findall_vega text_response))"
  by (simp add: extract_vega_lite_def scan_matches_plain)

lemma no_fence_no_candidate:
  "\<not> sublist ''```'' text_response \<Longrightarrow> findall_vega text_response = []"
proof (induction text_response rule: findall_vega.induct)
  case 1
  then show ?case by simp
next
  case (2 c cs)
  from 2(3) have np: "\<not> prefix ''```'' (c # cs)" and ns: "\<not> sublist ''```'' cs"
    by (auto simp: sublist_Cons_right)
  have "match_open (c # cs) = None"
  proof -
    have "\<not> prefix ''```vega-lite'' (c # cs)"
      using np by (auto simp: prefix_def)
    moreover have "\<not> prefix ''```json'' (c # cs)"
      using np by (auto simp: prefix_def)
    ultimately show ?thesis by (simp add: match_open_def)
  qed
  then have "match_at (c # cs) = None" by (simp add: match_at_def)
  with 2(1) ns show ?case by simp
qed

lemma extract_vega_lite_no_fence:
  "\<not> sublist ''```'' text_response \<Longrightarrow> extract_vega_lite loads text_response = Inr None"
  by (simp add: extract_vega_lite_def no_fence_no_candidate)

text \<open>
  A block that does not parse, followed by a chart: the block is passed over and the
  chart is returned.
\<close>

lemma findall_vega_broken_block:
  "findall_vega answer_with_broken_block =
     [''{'' @ dq @ ''data'' @ dq @ '': '' @ nl, chart_candidate @ nl]"
  by code_simp

lemma str_strip_broken_block:
  "str_strip (''{'' @ dq @ ''data'' @ dq @ '': '' @ nl) = ''{'' @ dq @ ''data'' @ dq @ '':''"
  by code_simp

lemma str_strip_chart_candidate: "str_strip (chart_candidate @ nl) = chart_candidate"
  by code_simp

lemma chart_document_accepted:
  "plain_document chart_document \<and> spec_accepts chart_document"
  by (simp add: chart_document_def spec_accepts_def)

lemma extract_vega_lite_skips_broken_block:
  assumes "loads (''{'' @ dq @ ''data'' @ dq @ '':'') = Inl (JSONDecodeError msg)"
    and "loads chart_candidate = Inr chart_document"
  shows "extract_vega_lite loads answer_with_broken_block = Inr (Some chart_document)"
proof -
  have "try_candidate loads (chart_candidate @ nl) = Inr (Some chart_document)"
    using try_candidate_plain [of loads "chart_candidate @ nl" chart_document]
      assms(2) chart_document_accepted
    by (simp add: str_strip_chart_candidate)
  moreover have "try_candidate loads (''{'' @ dq @ ''data'' @ dq @ '': '' @ nl) =
      Inl (JSONDecodeError msg)"
    unfolding try_candidate_def str_strip_broken_block assms(1) by simp
  ultimately show ?thesis
    by (simp add: extract_vega_lite_def findall_vega_broken_block)
qed

text \<open>White space beyond ASCII is stripped as well: a no-break space, \<open>U+00A0\<close>.\<close>

lemma str_strip_no_break_space:
  "str_strip ([CHR 0xC2, CHR 0xA0] @ chart_candidate @ [CHR 0xC2, CHR 0xA0] @ nl) =
     chart_candidate"
  by code_simp

lemma findall_vega_list_first:
  "findall_vega answer_with_list_first = [list_candidate @ nl, chart_candidate @ nl]"
  by code_simp

lemma findall_vega_number: "findall_vega answer_with_number = [''42'' @ nl]"
  by code_simp

lemma str_strip_list_candidate: "str_strip (list_candidate @ nl) = list_candidate"
  by code_simp

lemma str_strip_number: "str_strip (''42'' @ nl) = ''42''"
  by code_simp

text \<open>
  \<open>chat\<close> on a service that answers at once: no tool is called, the text of the answer
  goes to the extractor, and an exception of the extractor leaves \<open>chat\<close>.
\<close>

lemma TOOL_DESCRIPTIONS_declared: "\<exists>tools. get_tools_for_api TOOL_DESCRIPTIONS = Inr tools"
  using get_tools_loop_well_formed [OF TOOL_DESCRIPTIONS_well_formed, of "[]"]
  by (auto simp: get_tools_for_api_def)

lemma chat_answering_agent:
  "chat (answering_agent answer) TOOL_DESCRIPTIONS TOOLS dumps loads user_message =
     (case extract_vega_lite loads answer of
        Inl e \<Rightarrow> Some (Inl e)
      | Inr vega_lite \<Rightarrow>
          Some (Inr \<lparr>cr_text = answer, cr_vega_lite = vega_lite, cr_data = []\<rparr>))"
proof -
  from TOOL_DESCRIPTIONS_declared obtain tools where
    t: "get_tools_for_api TOOL_DESCRIPTIONS = Inr tools" by blast
  have l: "tool_loop send TOOLS dumps (final_reply answer) ms [] =
        Some (Inr (final_reply answer, ms, []))" for send ms
    by (subst tool_loop.simps) (simp add: final_reply_def)
  have x: "text_of_blocks (resp_content (final_reply answer)) = answer"
    by (simp add: final_reply_def)
  show ?thesis
    unfolding chat_def Let_def t
    by (simp add: answering_agent_def l x cong: sum.case_cong)
qed

text \<open>
  C6 does not hold of the code. The answer \<open>answer_with_list_first\<close> has two fenced
  blocks: the JSON list \<open>["data", "mark"]\<close>, then a chart with a \<open>data\<close> and a \<open>mark\<close>
  field. The list is no document with fields, and the first candidate that satisfies
  clause A or clause B is the chart; the code tests \<open>'data' in spec\<close> on the list, finds
  the element, and returns the list, also as the \<open>vega_lite\<close> of \<open>chat\<close>. The two
  hypotheses say what \<open>json.loads\<close> returns on the two texts.
\<close>

theorem extractor_returns_a_list_of_field_names:
  assumes "loads list_candidate = Inr (PList [PStr ''data'', PStr ''mark''])"
    and "loads chart_candidate = Inr chart_document"
  shows "extract_vega_lite loads answer_with_list_first =
           Inr (Some (PList [PStr ''data'', PStr ''mark''])) \<and>
         spec_first_accepted loads (findall_vega answer_with_list_first) =
           Some chart_document \<and>
         chat (answering_agent answer_with_list_first) TOOL_DESCRIPTIONS TOOLS dumps loads
             user_message =
           Some (Inr \<lparr>cr_text = answer_with_list_first,
                      cr_vega_lite = Some (PList [PStr ''data'', PStr ''mark'']),
                      cr_data = []\<rparr>)"
proof (intro conjI)
  have "try_candidate loads (list_candidate @ nl) = Inr (Some (PList [PStr ''data'', PStr ''mark'']))"
    using assms(1)
    by (simp add: try_candidate_def str_strip_list_candidate clause_a_def clause_b_def)
  then show e: "extract_vega_lite loads answer_with_list_first =
           Inr (Some (PList [PStr ''data'', PStr ''mark'']))"
    by (simp add: extract_vega_lite_def findall_vega_list_first)
  show "spec_first_accepted loads (findall_vega answer_with_list_first) = Some chart_document"
    using assms chart_document_accepted
    by (simp add: findall_vega_list_first str_strip_list_candidate str_strip_chart_candidate
          spec_accepts_def)
  show "chat (answering_agent answer_with_list_first) TOOL_DESCRIPTIONS TOOLS dumps loads
             user_message =
           Some (Inr \<lparr>cr_text = answer_with_list_first,
                      cr_vega_lite = Some (PList [PStr ''data'', PStr ''mark'']),
                      cr_data = []\<rparr>)"
    unfolding chat_answering_agent e by simp
qed

theorem extractor_returns_a_list_of_field_names_witness:
  "\<forall>dumps.
   scripted_loads [(list_candidate, PList [PStr ''data'', PStr ''mark'']),
                   (chart_candidate, chart_document)] list_candidate =
     Inr (PList [PStr ''data'', PStr ''mark'']) \<and>
   scripted_loads [(list_candidate, PList [PStr ''data'', PStr ''mark'']),
                   (chart_candidate, chart_document)] chart_candidate =
     Inr chart_document \<and>
   extract_vega_lite
     (scripted_loads [(list_candidate, PList [PStr ''data'', PStr ''mark'']),
                      (chart_candidate, chart_document)]) answer_with_list_first =
     Inr (Some (PList [PStr ''data'', PStr ''mark''])) \<and>
   spec_first_accepted
     (scripted_loads [(list_candidate, PList [PStr ''data'', PStr ''mark'']),
                      (chart_candidate, chart_document)])
     (findall_vega answer_with_list_first) = Some chart_document \<and>
   chat (answering_agent answer_with_list_first) TOOL_DESCRIPTIONS example_TOOLS dumps
     (scripted_loads [(list_candidate, PList [PStr ''data'', PStr ''mark'']),
                      (chart_candidate, chart_document)]) ''Which fields?'' =
     Some (Inr \<lparr>cr_text = answer_with_list_first,
                cr_vega_lite = Some (PList [PStr ''data'', PStr ''mark'']),
                cr_data = []\<rparr>)"
proof -
  let ?loads = "scripted_loads [(list_candidate, PList [PStr ''data'', PStr ''mark'']),
                   (chart_candidate, chart_document)]"
  have l: "?loads list_candidate = Inr (PList [PStr ''data'', PStr ''mark''])"
    by (simp add: scripted_loads_def)
  have "chart_candidate \<noteq> list_candidate" by code_simp
  then have c: "?loads chart_candidate = Inr chart_document"
    by (simp add: scripted_loads_def)
  show ?thesis
    using l c extractor_returns_a_list_of_field_names
                [of ?loads example_TOOLS _ "''Which fields?''", OF l c]
    by simp
qed

text \<open>
  C7 does not hold of the code. The answer \<open>answer_with_number\<close> has one fenced block,
  the JSON number \<open>42\<close>. It parses, so no \<open>JSONDecodeError\<close> is raised; the test
  \<open>'$schema' in spec\<close> on an \<open>int\<close> raises \<open>TypeError\<close>, which the loop does not catch
  and which leaves \<open>chat\<close>. The hypothesis says what \<open>json.loads\<close> returns on the text.
\<close>

theorem extractor_raises_on_a_number:
  assumes "loads ''42'' = Inr (PInt 42)"
  shows "extract_vega_lite loads answer_with_number =
           Inl (TypeError (''argument of type '' @ quoted ''int'' @ '' is not iterable'')) \<and>
         chat (answering_agent answer_with_number) TOOL_DESCRIPTIONS TOOLS dumps loads
             user_message =
           Some (Inl (TypeError (''argument of type '' @ quoted ''int'' @ '' is not iterable'')))"
proof (intro conjI)
  have "try_candidate loads (''42'' @ nl) =
          Inl (TypeError (''argument of type '' @ quoted ''int'' @ '' is not iterable''))"
    unfolding try_candidate_def str_strip_number assms by (simp add: clause_a_def)
  then show e: "extract_vega_lite loads answer_with_number =
           Inl (TypeError (''argument of type '' @ quoted ''int'' @ '' is not iterable''))"
    by (simp add: extract_vega_lite_def findall_vega_number)
  show "chat (answering_agent answer_with_number) TOOL_DESCRIPTIONS TOOLS dumps loads
             user_message =
           Some (Inl (TypeError (''argument of type '' @ quoted ''int'' @ '' is not iterable'')))"
    unfolding chat_answering_agent e by simp
qed

theorem extractor_raises_on_a_number_witness:
  "\<forall>dumps.
   scripted_loads [(''42'', PInt 42)] ''42'' = Inr (PInt 42) \<and>
   extract_vega_lite (scripted_loads [(''42'', PInt 42)]) answer_with_number =
     Inl (TypeError (''argument of type '' @ quoted ''int'' @ '' is not iterable'')) \<and>
   chat (answering_agent answer_with_number) TOOL_DESCRIPTIONS example_TOOLS dumps
       (scripted_loads [(''42'', PInt 42)]) ''How many papers?'' =
     Some (Inl (TypeError (''argument of type '' @ quoted ''int'' @ '' is not iterable'')))"
proof -
  have l: "scripted_loads [(''42'', PInt 42)] ''42'' = Inr (PInt 42)"
    by (simp add: scripted_loads_def)
  show ?thesis
    using l extractor_raises_on_a_number
              [of "scripted_loads [(''42'', PInt 42)]" example_TOOLS _ "''How many papers?''", OF l]
    by simp
qed

section \<open>The credential is checked at construction\<close>

lemma init_success:
  assumes "init Anthropic a g = Inr self"
  shows "api_key self \<noteq> [] \<and> py_or a g = Some (api_key self) \<and>
         client self = Anthropic (api_key self)"
  using assms by (auto simp: init_def split: option.splits if_splits)

lemma chat_ignores_api_key:
  "chat (self\<lparr>api_key := k\<rparr>) descriptions TOOLS dumps loads user_message =
   chat self descriptions TOOLS dumps loads user_message"
  unfolding chat_def by (simp cong: sum.case_cong)

text \<open>
  C9. With no credential in the argument and none in the environment, the constructor
  raises \<open>ValueError\<close>. An agent that was constructed holds a credential that is not
  empty. \<open>chat\<close> does not read the credential: its outcome is the same whatever the
  field holds, so no check of it happens during a conversation.
\<close>

theorem missing_credential_fails_at_construction:
  "init Anthropic None None = Inl (ValueError ''ANTHROPIC_API_KEY not found'') \<and>
   (init Anthropic a g = Inr self \<longrightarrow> api_key self \<noteq> [] \<and> py_or a g = Some (api_key self)) \<and>
   chat (self'\<lparr>api_key := k\<rparr>) descriptions TOOLS dumps loads user_message =
     chat self' descriptions TOOLS dumps loads user_message"
proof (intro conjI impI)
  show "init Anthropic None None = Inl (ValueError ''ANTHROPIC_API_KEY not found'')"
    by (simp add: init_def py_or_def)
  show "api_key self \<noteq> []" if "init Anthropic a g = Inr self"
    using init_success [OF that] by simp
  show "py_or a g = Some (api_key self)" if "init Anthropic a g = Inr self"
    using init_success [OF that] by simp
  show "chat (self'\<lparr>api_key := k\<rparr>) descriptions TOOLS dumps loads user_message =
     chat self' descriptions TOOLS dumps loads user_message"
    by (rule chat_ignores_api_key)
qed

theorem missing_credential_fails_at_construction_witness:
  "init (\<lambda>k. client example_agent) None (Some ''sk-test'') = Inr example_agent \<and>
   api_key example_agent \<noteq> [] \<and>
   py_or None (Some ''sk-test'') = Some (api_key example_agent) \<and>
   init (\<lambda>k. client example_agent) None None =
     Inl (ValueError ''ANTHROPIC_API_KEY not found'')"
proof -
  have i: "init (\<lambda>k. client example_agent) None (Some ''sk-test'') = Inr example_agent"
    by (simp add: init_def py_or_def example_agent_def)
  show ?thesis
    using i missing_credential_fails_at_construction
      [where Anthropic = "\<lambda>k. client example_agent" and a = None and g = "Some ''sk-test''"
         and self = example_agent]
    by simp
qed

section \<open>The filters of the paper query\<close>

lemma df_head_subset: "set (df_head n rows) \<subseteq> set rows"
  by (auto simp: df_head_def dest: in_set_takeD)

lemma sort_by_citations_desc_set: "set (sort_by_citations_desc rows) = set rows"
  by (simp add: sort_by_citations_desc_def)

text \<open>
  What \<open>sort_values\<close> guarantees whatever its algorithm: the same rows, in descending
  order of the citation count. Only the order among rows of equal count is the model's
  own choice.
\<close>

lemma sorted_negated_keys:
  "sorted (map (\<lambda>r. - (f r :: int)) xs) \<Longrightarrow> sorted (rev (map f xs))"
  by (induction xs) (auto simp: sorted_append)

lemma sort_by_citations_desc_sorted:
  "sorted (rev (map cited_by_count (sort_by_citations_desc rows))) \<and>
   length (sort_by_citations_desc rows) = length rows \<and>
   set (sort_by_citations_desc rows) = set rows"
proof -
  have "sorted (map (\<lambda>r. - cited_by_count r) (sort_by_citations_desc rows))"
    by (simp add: sort_by_citations_desc_def)
  then have "sorted (rev (map cited_by_count (sort_by_citations_desc rows)))"
    by (rule sorted_negated_keys)
  then show ?thesis by (simp add: sort_by_citations_desc_def)
qed

lemma query_has_patents_filters_first:
  "query_papers_with_filters papers year_arg min_citations (Some True) limit =
     query_papers_with_filters (filter (\<lambda>r. patent_count r > 0) papers)
       year_arg min_citations None limit"
  by (cases year_arg; cases min_citations)
     (simp_all add: query_papers_with_filters_def conj_ac)

lemma head_sorted_subset: "set (df_head limit (sort_by_citations_desc rows)) \<subseteq> set rows"
  using df_head_subset [of limit "sort_by_citations_desc rows"]
  by (simp add: sort_by_citations_desc_set)

lemma query_subset:
  "set (query_papers_with_filters papers year_arg min_citations has_patents limit) \<subseteq> set papers"
proof -
  define df1 where "df1 = (case year_arg of None \<Rightarrow> papers
      | Some y \<Rightarrow> if y \<noteq> 0 then filter (\<lambda>r. year r = y) papers else papers)"
  define df2 where "df2 = (case min_citations of None \<Rightarrow> df1
      | Some m \<Rightarrow> if m \<noteq> 0 then filter (\<lambda>r. cited_by_count r \<ge> m) df1 else df1)"
  define df3 where "df3 = (case has_patents of None \<Rightarrow> df2
      | Some b \<Rightarrow> if b then filter (\<lambda>r. patent_count r > 0) df2 else df2)"
  have 1: "set df1 \<subseteq> set papers" by (auto simp: df1_def split: option.splits)
  have 2: "set df2 \<subseteq> set df1" by (auto simp: df2_def split: option.splits)
  have 3: "set df3 \<subseteq> set df2" by (auto simp: df3_def split: option.splits)
  have "query_papers_with_filters papers year_arg min_citations has_patents limit =
          df_head limit (sort_by_citations_desc df3)"
    unfolding query_papers_with_filters_def df1_def df2_def df3_def Let_def by (rule refl)
  with head_sorted_subset [of limit df3] 1 2 3 show ?thesis by auto
qed

lemma query_has_patents_only_patented:
  "set (query_papers_with_filters papers year_arg min_citations (Some True) limit)
     \<subseteq> {r. patent_count r > 0}"
  using query_subset [of "filter (\<lambda>r. patent_count r > 0) papers" year_arg min_citations None limit]
  by (auto simp: query_has_patents_filters_first)

text \<open>
  C10. A year of \<open>0\<close> and a minimum of \<open>0\<close> citations behave as an absent argument,
  and so does \<open>has_patents = False\<close>. \<open>has_patents = True\<close> restricts: the result is the
  result on the rows with a patent count above zero, and holds such rows only.
\<close>

theorem filters_apply_only_when_truthy:
  "query_papers_with_filters papers (Some 0) min_citations has_patents limit =
     query_papers_with_filters papers None min_citations has_patents limit \<and>
   query_papers_with_filters papers year_arg (Some 0) has_patents limit =
     query_papers_with_filters papers year_arg None has_patents limit \<and>
   query_papers_with_filters papers year_arg min_citations (Some False) limit =
     query_papers_with_filters papers year_arg min_citations None limit \<and>
   query_papers_with_filters papers year_arg min_citations (Some True) limit =
     query_papers_with_filters (filter (\<lambda>r. patent_count r > 0) papers)
       year_arg min_citations None limit \<and>
   list_all (\<lambda>r. patent_count r > 0)
     (query_papers_with_filters papers year_arg min_citations (Some True) limit)"
proof (intro conjI)
  show "query_papers_with_filters papers (Some 0) min_citations has_patents limit =
     query_papers_with_filters papers None min_citations has_patents limit"
    by (simp add: query_papers_with_filters_def)
  show "query_papers_with_filters papers year_arg (Some 0) has_patents limit =
     query_papers_with_filters papers year_arg None has_patents limit"
    by (simp add: query_papers_with_filters_def)
  show "query_papers_with_filters papers year_arg min_citations (Some False) limit =
     query_papers_with_filters papers year_arg min_citations None limit"
    by (simp add: query_papers_with_filters_def)
  show "query_papers_with_filters papers year_arg min_citations (Some True) limit =
     query_papers_with_filters (filter (\<lambda>r. patent_count r > 0) papers)
       year_arg min_citations None limit"
    by (rule query_has_patents_filters_first)
  show "list_all (\<lambda>r. patent_count r > 0)
     (query_papers_with_filters papers year_arg min_citations (Some True) limit)"
    using query_has_patents_only_patented [of papers year_arg min_citations limit]
    by (auto simp: list_all_iff)
qed

text \<open>
  On three rows, one of them with patents: \<open>has_patents = False\<close> returns all three,
  the row with patents among them.
\<close>

theorem filters_apply_only_when_truthy_witness:
  "map paperid (query_papers_with_filters example_papers (Some 0) (Some 0) (Some False) 20) =
     [''W2'', ''W1'', ''W3''] \<and>
   map paperid (query_papers_with_filters example_papers None None None 20) =
     [''W2'', ''W1'', ''W3''] \<and>
   map paperid (query_papers_with_filters example_papers None None (Some True) 20) = [''W2'']"
proof -
  have e: "map paperid (query_papers_with_filters example_papers None None None 20) =
     [''W2'', ''W1'', ''W3'']"
    by (simp add: query_papers_with_filters_def example_papers_def df_head_def
          sort_by_citations_desc_def)
  have t: "map paperid (query_papers_with_filters example_papers None None (Some True) 20) = [''W2'']"
    by (simp add: query_papers_with_filters_def example_papers_def df_head_def
          sort_by_citations_desc_def)
  have a: "query_papers_with_filters example_papers (Some 0) (Some 0) (Some False) 20 =
           query_papers_with_filters example_papers None (Some 0) (Some False) 20"
    using filters_apply_only_when_truthy [of example_papers "Some 0" "Some False" 20 None]
    by simp
  have b: "query_papers_with_filters example_papers None (Some 0) (Some False) 20 =
           query_papers_with_filters example_papers None None (Some False) 20"
    using filters_apply_only_when_truthy [of example_papers None "Some False" 20 None]
    by simp
  have c: "query_papers_with_filters example_papers None None (Some False) 20 =
           query_papers_with_filters example_papers None None None 20"
    using filters_apply_only_when_truthy
            [where papers = example_papers and year_arg = None and min_citations = None
               and limit = 20]
    by simp
  show ?thesis using e t a b c by simp
qed

end
